theory Spec2Isabelle
  imports Complex_Main
begin

section \<open>Data model of \<open>ase/neb.py\<close>\<close>

text \<open>
  Coordinates are modelled over the reals: a row of a numpy array of shape \<open>(n, 3)\<close> is a
  triple, and such an array is a list of rows. Every statement below is about which
  values are read, written and combined, in exact arithmetic; rounding is outside the
  model. Where numpy divides by zero it does not raise but stores \<open>nan\<close> or \<open>inf\<close>; the
  model makes that outcome the error value \<open>NonFinite\<close>, because HOL's own \<open>x / 0 = 0\<close>
  would hide it.
\<close>

type_synonym vec3 = "real \<times> real \<times> real"
type_synonym arr = "vec3 list"

datatype error =
    ValueError string
  | NotImplementedError string
  | TypeError string
  | RuntimeError string
  | IndexError
  | AssertionError
  | ZeroDivisionError
  | NonFinite

text \<open>
  An \<open>Atoms\<close> object, as far as this module reads it: positions, atomic numbers, the
  periodic-boundary mask, the cell, and the attached calculator (an object identity, or
  \<open>None\<close>).
\<close>

record image =
  positions :: arr
  numbers :: "nat list"
  pbc :: "bool \<times> bool \<times> bool"
  cell :: arr
  calc :: "nat option"

record chain =
  images :: "image list"
  nsteps :: nat
  natoms :: nat
  nimages :: nat

datatype kspec = KScalar real | KList "real list"

text \<open>
  The attributes of an \<open>NEB\<close>. The attribute \<open>method\<close> is the field \<open>neb_method\<close>, and
  \<open>world\<close> is kept as the size of the communicator. \<open>emax\<close> starts as \<open>nan\<close> (here
  \<open>None\<close>); \<open>imax\<close> does not exist before the first call of \<open>get_forces\<close>.
\<close>

record neb = chain +
  climb :: bool
  parallel :: bool
  emax :: "real option"
  remove_rotation_and_translation :: bool
  dynamic_relaxation :: bool
  fmax :: real
  scale_fmax :: real
  neb_method :: string
  k :: "real list"
  world_size :: nat
  real_forces :: "arr list option"
  energies :: "real list option"
  imax :: "nat option"

section \<open>\<open>ChainOfStates\<close>\<close>

subsection \<open>Construction\<close>

text \<open>
  The loop of \<open>ChainOfStates.__init__\<close>: every image is compared with image 0, in the
  order atom count, boundary conditions, atomic numbers. The two array comparisons are
  elementwise (\<open>(a != b).any()\<close>).
\<close>

fun check_images :: "image \<Rightarrow> nat \<Rightarrow> image list \<Rightarrow> error + unit" where
  "check_images first n [] = Inr ()"
| "check_images first n (img # rest) =
     (if length (positions img) \<noteq> n
      then Inl (ValueError ''Images have different numbers of atoms'')
      else if pbc img \<noteq> pbc first
      then Inl (ValueError ''Images have different boundary conditions'')
      else if list_ex (\<lambda>(a, b). a \<noteq> b) (zip (numbers img) (numbers first))
      then Inl (ValueError ''Images have atoms in different orders'')
      else check_images first n rest)"

definition ChainOfStates_init :: "image list \<Rightarrow> error + chain" where
  "ChainOfStates_init imgs =
     (case imgs of
        [] \<Rightarrow> Inl IndexError
      | first # _ \<Rightarrow>
          (case check_images first (length (positions first)) imgs of
             Inl e \<Rightarrow> Inl e
           | Inr _ \<Rightarrow>
               Inr \<lparr>images = imgs, nsteps = 0, natoms = length (positions first),
                    nimages = length imgs\<rparr>))"

text \<open>
  \<open>NEB.__init__\<close>, after the base constructor: the check of \<open>scale_fmax\<close>, the check of
  the method name, the broadcast of a scalar spring constant, and the assertion on the
  size of the communicator. In that assertion Python's \<open>%\<close> raises
  \<open>ZeroDivisionError\<close> for two images and gives 0 for the modulus \<open>-1\<close> of one image.
\<close>

definition NEB_init ::
  "image list \<Rightarrow> kspec \<Rightarrow> real \<Rightarrow> bool \<Rightarrow> bool \<Rightarrow> bool \<Rightarrow> nat \<Rightarrow> string \<Rightarrow> bool \<Rightarrow> real
     \<Rightarrow> error + neb" where
  "NEB_init imgs k_arg fmax_arg climb_arg parallel_arg rrt world method_arg dyn scale =
     (case ChainOfStates_init imgs of
        Inl e \<Rightarrow> Inl e
      | Inr c \<Rightarrow>
          if \<not> dyn \<and> scale \<noteq> 0
          then Inl (ValueError
            ''Scaled convergence criteria only implemented in series with dynamic_relaxation.'')
          else if method_arg \<notin> set [''aseneb'', ''eb'', ''improvedtangent'']
          then Inl (NotImplementedError method_arg)
          else if parallel_arg \<and> world \<noteq> 1 \<and> nimages c = 2
          then Inl ZeroDivisionError
          else if parallel_arg \<and> world \<noteq> 1 \<and> 3 \<le> nimages c \<and> world mod (nimages c - 2) \<noteq> 0
          then Inl AssertionError
          else Inr (chain.extend c
            \<lparr>climb = climb_arg, parallel = parallel_arg, emax = None,
             remove_rotation_and_translation = rrt, dynamic_relaxation = dyn,
             fmax = fmax_arg, scale_fmax = scale,
             neb_method = method_arg,
             k = (case k_arg of KScalar x \<Rightarrow> replicate (nimages c - 1) x | KList xs \<Rightarrow> xs),
             world_size = world, real_forces = None, energies = None, imax = None\<rparr>))"

subsection \<open>Positions and degrees of freedom\<close>

text \<open>\<open>images[1:-1]\<close>: the interior images.\<close>

definition interior :: "'a list \<Rightarrow> 'a list" where
  "interior xs = butlast (tl xs)"

text \<open>
  \<open>get_positions\<close> allocates \<open>((nimages - 2) * natoms, 3)\<close> (numpy refuses a negative
  dimension) and copies the interior images into it, one block of \<open>natoms\<close> rows each.
\<close>

definition get_positions :: "'a chain_scheme \<Rightarrow> error + arr" where
  "get_positions c =
     (if nimages c < 2 \<and> 0 < natoms c
      then Inl (ValueError ''negative dimensions are not allowed'')
      else Inr (concat (map positions (interior (images c)))))"

definition ravel :: "arr \<Rightarrow> real list" where
  "ravel a = concat (map (\<lambda>(x, y, z). [x, y, z]) a)"

definition get_dofs :: "'a chain_scheme \<Rightarrow> error + real list" where
  "get_dofs c = (case get_positions c of Inl e \<Rightarrow> Inl e | Inr p \<Rightarrow> Inr (ravel p))"

fun rows3 :: "real list \<Rightarrow> arr" where
  "rows3 (x # y # z # rest) = (x, y, z) # rows3 rest"
| "rows3 _ = []"

text \<open>\<open>dofs.reshape((rows, 3))\<close> raises unless the vector has \<open>3 * rows\<close> entries.\<close>

definition reshape3 :: "real list \<Rightarrow> nat \<Rightarrow> error + arr" where
  "reshape3 x rows =
     (if length x = 3 * rows then Inr (rows3 x)
      else Inl (ValueError ''cannot reshape array''))"

text \<open>
  \<open>image.set_positions(a)\<close> of \<open>Atoms\<close> stores \<open>a\<close> and raises when its shape is not
  that of the positions it replaces.
\<close>

definition image_set_positions :: "image \<Rightarrow> arr \<Rightarrow> error + image" where
  "image_set_positions img a =
     (if length a = length (positions img) then Inr (img\<lparr>positions := a\<rparr>)
      else Inl (ValueError ''Array positions has wrong shape''))"

text \<open>
  The loop of \<open>ChainOfStates.set_positions\<close> over the interior images: image by image the
  slice \<open>positions[n1:n2]\<close> with \<open>n2 = n1 + natoms\<close>.
\<close>

fun set_positions_loop :: "nat \<Rightarrow> arr \<Rightarrow> nat \<Rightarrow> image list \<Rightarrow> error + image list" where
  "set_positions_loop n p n1 [] = Inr []"
| "set_positions_loop n p n1 (img # rest) =
     (case image_set_positions img (take n (drop n1 p)) of
        Inl e \<Rightarrow> Inl e
      | Inr img' \<Rightarrow>
          (case set_positions_loop n p (n1 + n) rest of
             Inl e \<Rightarrow> Inl e
           | Inr rest' \<Rightarrow> Inr (img' # rest')))"

text \<open>Writing the interior images back between the two endpoints, which are kept.\<close>

definition with_interior :: "image list \<Rightarrow> image list \<Rightarrow> image list" where
  "with_interior imgs mid =
     (if length imgs < 2 then imgs else hd imgs # mid @ [last imgs])"

definition set_positions :: "'a chain_scheme \<Rightarrow> arr \<Rightarrow> error + 'a chain_scheme" where
  "set_positions c p =
     (case set_positions_loop (natoms c) p 0 (interior (images c)) of
        Inl e \<Rightarrow> Inl e
      | Inr mid \<Rightarrow> Inr (c\<lparr>images := with_interior (images c) mid\<rparr>))"

text \<open>
  \<open>dofs.reshape(((nimages - 2) * natoms, 3))\<close>, with the first dimension as the integer
  it is in Python. The module needs a numpy that still has \<open>np.float\<close>, and there
  \<open>reshape\<close> takes every negative entry as the one dimension to infer: a negative first
  dimension (one image of one or more atoms) gives as many rows of three as \<open>x\<close> holds.
\<close>

definition reshape_rows :: "int \<Rightarrow> real list \<Rightarrow> error + arr" where
  "reshape_rows d x =
     (if d < 0 then
        (if length x mod 3 = 0 then Inr (rows3 x) else Inl (ValueError ''cannot reshape array''))
      else reshape3 x (nat d))"

definition set_dofs :: "'a chain_scheme \<Rightarrow> real list \<Rightarrow> error + 'a chain_scheme" where
  "set_dofs c x =
     (case reshape_rows ((int (nimages c) - 2) * int (natoms c)) x of
        Inl e \<Rightarrow> Inl e
      | Inr p \<Rightarrow> set_positions c p)"

text \<open>
  What the constructor establishes and every operation below relies on: the cached
  counts agree with the images, and every image has \<open>natoms\<close> atoms.
\<close>

definition chain_ok :: "'a chain_scheme \<Rightarrow> bool" where
  "chain_ok c \<longleftrightarrow>
     nimages c = length (images c) \<and>
     list_all (\<lambda>img. length (positions img) = natoms c) (images c)"

section \<open>Array arithmetic\<close>

definition v_add :: "vec3 \<Rightarrow> vec3 \<Rightarrow> vec3" where
  "v_add a b = (case a of (x, y, z) \<Rightarrow> case b of (u, v, w) \<Rightarrow> (x + u, y + v, z + w))"

definition v_sub :: "vec3 \<Rightarrow> vec3 \<Rightarrow> vec3" where
  "v_sub a b = (case a of (x, y, z) \<Rightarrow> case b of (u, v, w) \<Rightarrow> (x - u, y - v, z - w))"

definition v_scale :: "real \<Rightarrow> vec3 \<Rightarrow> vec3" where
  "v_scale c a = (case a of (x, y, z) \<Rightarrow> (c * x, c * y, c * z))"

definition v_dot :: "vec3 \<Rightarrow> vec3 \<Rightarrow> real" where
  "v_dot a b = (case a of (x, y, z) \<Rightarrow> case b of (u, v, w) \<Rightarrow> x * u + y * v + z * w)"

definition arr_add :: "arr \<Rightarrow> arr \<Rightarrow> arr" where
  "arr_add a b = map2 v_add a b"

definition arr_sub :: "arr \<Rightarrow> arr \<Rightarrow> arr" where
  "arr_sub a b = map2 v_sub a b"

definition arr_scale :: "real \<Rightarrow> arr \<Rightarrow> arr" where
  "arr_scale c a = map (v_scale c) a"

text \<open>\<open>np.vdot\<close> of two arrays of one shape, and \<open>np.linalg.norm\<close> (the Frobenius norm).\<close>

definition vdot :: "arr \<Rightarrow> arr \<Rightarrow> real" where
  "vdot a b = sum_list (map2 v_dot a b)"

definition norm_arr :: "arr \<Rightarrow> real" where
  "norm_arr a = sqrt (vdot a a)"

text \<open>
  Division by a numpy scalar. A zero divisor does not raise: the quotient is \<open>nan\<close> or
  \<open>inf\<close>. The model reports that event, and stops at the first one in program order.
  An array without entries is divided without any division taking place.
\<close>

definition fdiv :: "real \<Rightarrow> real \<Rightarrow> error + real" where
  "fdiv a d = (if d = 0 then Inl NonFinite else Inr (a / d))"

definition arr_div :: "arr \<Rightarrow> real \<Rightarrow> error + arr" where
  "arr_div a d = (if d = 0 \<and> a \<noteq> [] then Inl NonFinite else Inr (map (\<lambda>(x, y, z). (x / d, y / d, z / d)) a))"

text \<open>
  \<open>np.sqrt((a**2).sum(axis=1)).max()\<close>: the largest row norm; \<open>max\<close> of an array
  without rows raises.
\<close>

definition row_norm :: "vec3 \<Rightarrow> real" where
  "row_norm a = sqrt (v_dot a a)"

definition row_norm_max :: "arr \<Rightarrow> error + real" where
  "row_norm_max a =
     (case a of
        [] \<Rightarrow> Inl (ValueError ''zero-size array to reduction operation maximum which has no identity'')
      | r # rs \<Rightarrow> Inr (fold (\<lambda>x m. max m (row_norm x)) rs (row_norm r)))"

section \<open>\<open>NEB\<close>\<close>

subsection \<open>\<open>NEB.set_positions\<close>\<close>

text \<open>
  The loop of \<open>NEB.set_positions\<close>. Without dynamic relaxation it is the loop of the
  base class. With dynamic relaxation and \<open>parallel\<close> it raises \<open>ValueError\<close>. With
  dynamic relaxation and without \<open>parallel\<close> it evaluates
  \<open>self.get_fmax_all(self.images)\<close>; the only definition of \<open>get_fmax_all\<close> that an
  \<open>NEB\<close> has is \<open>ChainOfStates.get_fmax_all(self)\<close>, so the call passes one positional
  argument too many and Python raises \<open>TypeError\<close> before the body of the method runs.
  All of this happens inside the loop, so a chain without interior images raises nothing.
\<close>

fun NEB_set_positions_loop :: "neb \<Rightarrow> arr \<Rightarrow> nat \<Rightarrow> image list \<Rightarrow> error + image list" where
  "NEB_set_positions_loop s p n1 [] = Inr []"
| "NEB_set_positions_loop s p n1 (img # rest) =
     (if dynamic_relaxation s then
        (if parallel s
         then Inl (ValueError ''Dynamic relaxation does not work efficiently when parallelizing over images. Try AutoNEB routine for freezing images in parallel.'')
         else Inl (TypeError ''get_fmax_all() takes 1 positional argument but 2 were given''))
      else
        (case image_set_positions img (take (natoms s) (drop n1 p)) of
           Inl e \<Rightarrow> Inl e
         | Inr img' \<Rightarrow>
             (case NEB_set_positions_loop s p (n1 + natoms s) rest of
                Inl e \<Rightarrow> Inl e
              | Inr rest' \<Rightarrow> Inr (img' # rest'))))"

definition NEB_set_positions :: "neb \<Rightarrow> arr \<Rightarrow> error + neb" where
  "NEB_set_positions s p =
     (case NEB_set_positions_loop s p 0 (interior (images s)) of
        Inl e \<Rightarrow> Inl e
      | Inr mid \<Rightarrow> Inr (s\<lparr>images := with_interior (images s) mid\<rparr>))"

text \<open>\<open>set_dofs\<close> is inherited; on an \<open>NEB\<close> it dispatches to \<open>NEB.set_positions\<close>.\<close>

definition NEB_set_dofs :: "neb \<Rightarrow> real list \<Rightarrow> error + neb" where
  "NEB_set_dofs s x =
     (case reshape_rows ((int (nimages s) - 2) * int (natoms s)) x of
        Inl e \<Rightarrow> Inl e
      | Inr p \<Rightarrow> NEB_set_positions s p)"

subsection \<open>The collaborators of \<open>NEB.get_forces\<close>\<close>

text \<open>
  Code outside this module, taken as parameters: \<open>ase.geometry.find_mic\<close> (its first
  result, the displacements, and its second, their lengths), \<open>ase.build.minimize_rotation_and_translation(target, atoms)\<close>
  (the positions it stores in \<open>atoms\<close>; \<open>target\<close> is left as it is), the calculators
  (selected by identity; energy and forces of an image), and the content of the
  \<open>np.empty\<close> energies array before it is written.
\<close>

record env =
  find_mic :: "arr \<Rightarrow> arr \<Rightarrow> bool \<times> bool \<times> bool \<Rightarrow> arr"
  find_mic_len :: "arr \<Rightarrow> arr \<Rightarrow> bool \<times> bool \<times> bool \<Rightarrow> real list"
  minimize_rotation_and_translation :: "arr \<Rightarrow> arr \<Rightarrow> arr"
  calc_energy :: "nat \<Rightarrow> image \<Rightarrow> real"
  calc_forces :: "nat \<Rightarrow> image \<Rightarrow> arr"
  uninit :: "nat \<Rightarrow> real"

text \<open>
  \<open>np.argsort\<close> with its default sort. The numpy versions that this module runs on
  (it uses \<open>np.float\<close>) sort an array of at most 16 entries by insertion, moving an
  entry only past strictly larger ones, so equal keys keep the order of the input. The
  model is that sort; what is stated about the order of equal keys is stated for at most
  16 interior images.
\<close>

definition argsort :: "real list \<Rightarrow> nat list" where
  "argsort xs = map snd (sort_key fst (zip xs [0..<length xs]))"

text \<open>\<open>image.get_potential_energy()\<close> and \<open>image.get_forces()\<close> of \<open>Atoms\<close>.\<close>

definition image_energy :: "env \<Rightarrow> image \<Rightarrow> error + real" where
  "image_energy ev img =
     (case calc img of
        None \<Rightarrow> Inl (RuntimeError ''Atoms object has no calculator.'')
      | Some c \<Rightarrow> Inr (calc_energy ev c img))"

definition image_forces :: "env \<Rightarrow> image \<Rightarrow> error + arr" where
  "image_forces ev img =
     (case calc img of
        None \<Rightarrow> Inl (RuntimeError ''Atoms object has no calculator.'')
      | Some c \<Rightarrow> Inr (calc_forces ev c img))"

text \<open>
  The assignment \<open>forces[i-1] = images[i].get_forces()\<close> into a slot of shape
  \<open>(natoms, 3)\<close>: numpy broadcasts a single row and refuses any other row count.
\<close>

definition store_rows :: "nat \<Rightarrow> arr \<Rightarrow> error + arr" where
  "store_rows n a =
     (if length a = n then Inr a
      else if length a = 1 then Inr (replicate n (hd a))
      else Inl (ValueError ''could not broadcast input array''))"

text \<open>
  The evaluation of the interior images, one at a time: energy, then forces. The
  threaded and the distributed mode leave the same numbers in \<open>energies\<close> and \<open>forces\<close>
  when every calculator answers; the model is the serial loop for all three.
\<close>

fun eval_images :: "env \<Rightarrow> nat \<Rightarrow> image list \<Rightarrow> error + (real \<times> arr) list" where
  "eval_images ev n [] = Inr []"
| "eval_images ev n (img # rest) =
     (case image_energy ev img of
        Inl e \<Rightarrow> Inl e
      | Inr en \<Rightarrow>
          (case image_forces ev img of
             Inl e \<Rightarrow> Inl e
           | Inr fr \<Rightarrow>
               (case store_rows n fr of
                  Inl e \<Rightarrow> Inl e
                | Inr fr' \<Rightarrow>
                    (case eval_images ev n rest of
                       Inl e \<Rightarrow> Inl e
                     | Inr others \<Rightarrow> Inr ((en, fr') # others)))))"

text \<open>
  \<open>for i in range(1, nimages): minimize_rotation_and_translation(images[i-1], images[i])\<close>:
  every image from 1 to the last one is moved onto its (already moved) predecessor.
\<close>

fun align_loop :: "env \<Rightarrow> image \<Rightarrow> image list \<Rightarrow> image list" where
  "align_loop ev prev [] = []"
| "align_loop ev prev (img # rest) =
     (let img' = img\<lparr>positions :=
                   minimize_rotation_and_translation ev (positions prev) (positions img)\<rparr>
      in img' # align_loop ev img' rest)"

definition align_images :: "env \<Rightarrow> image list \<Rightarrow> image list" where
  "align_images ev imgs =
     (case imgs of [] \<Rightarrow> [] | first # rest \<Rightarrow> first # align_loop ev first rest)"

subsection \<open>One image of the loop of \<open>NEB.get_forces\<close>\<close>

text \<open>\<open>self.k[j]\<close>: a list of spring constants that is too short raises.\<close>

definition k_at :: "neb \<Rightarrow> nat \<Rightarrow> error + real" where
  "k_at s j = (if j < length (k s) then Inr (k s ! j) else Inl IndexError)"

definition deltav_max :: "real list \<Rightarrow> nat \<Rightarrow> real" where
  "deltav_max en i = max \<bar>en ! (i + 1) - en ! i\<bar> \<bar>en ! (i - 1) - en ! i\<bar>"

definition deltav_min :: "real list \<Rightarrow> nat \<Rightarrow> real" where
  "deltav_min en i = min \<bar>en ! (i + 1) - en ! i\<bar> \<bar>en ! (i - 1) - en ! i\<bar>"

text \<open>
  The tangent at image \<open>i\<close>, from the displacement \<open>t1\<close> to the previous image and \<open>t2\<close> to
  the next one. The methods \<open>eb\<close> and \<open>improvedtangent\<close> normalise it; \<open>aseneb\<close> does not.
\<close>

definition tangent_of ::
  "neb \<Rightarrow> real list \<Rightarrow> nat \<Rightarrow> nat \<Rightarrow> arr \<Rightarrow> real \<Rightarrow> arr \<Rightarrow> real \<Rightarrow> error + arr" where
  "tangent_of s en im i t1 nt1 t2 nt2 =
     (if neb_method s = ''eb'' then
        (case arr_div t1 nt1 of
           Inl e \<Rightarrow> Inl e
         | Inr a \<Rightarrow>
             (case arr_div t2 nt2 of
                Inl e \<Rightarrow> Inl e
              | Inr b \<Rightarrow> arr_div (arr_add a b) (norm_arr (arr_add a b))))
      else if neb_method s = ''improvedtangent'' then
        (let tg =
           (if en ! (i + 1) > en ! i \<and> en ! i > en ! (i - 1) then t2
            else if en ! (i + 1) < en ! i \<and> en ! i < en ! (i - 1) then t1
            else if en ! (i + 1) > en ! (i - 1)
              then arr_add (arr_scale (deltav_max en i) t2) (arr_scale (deltav_min en i) t1)
              else arr_add (arr_scale (deltav_min en i) t2) (arr_scale (deltav_max en i) t1))
         in arr_div tg (norm_arr tg))
      else Inr (if i < im then t2 else if i > im then t1 else arr_add t1 t2))"

text \<open>
  \<open>eqlength\<close> of the method \<open>eb\<close>: the length of the straight line between the endpoints
  over the number of springs.
\<close>

definition eqlength :: "neb \<Rightarrow> real" where
  "eqlength s =
     norm_arr (arr_sub (positions (images s ! (nimages s - 1))) (positions (images s ! 0)))
       / real (nimages s - 1)"

text \<open>
  The new content of \<open>forces[i-1]\<close>: the climbing image, or the perpendicular force plus
  the springs of the method. \<open>f\<close> is a view of the forces array, so each \<open>f -= ...\<close> and
  \<open>f += ...\<close> of the source writes it. In the branch of a neighbour of the climbing
  image under \<open>eb\<close> the source evaluates \<open>(f1 + f2) * deltavmin / deltavmax\<close> with no test
  of \<open>deltavmax\<close>.
\<close>

definition project ::
  "neb \<Rightarrow> real list \<Rightarrow> nat \<Rightarrow> nat \<Rightarrow> arr \<Rightarrow> real \<Rightarrow> arr \<Rightarrow> real \<Rightarrow> arr \<Rightarrow> arr \<Rightarrow> error + arr" where
  "project s en im i t1 nt1 t2 nt2 tangent f =
     (let ft = vdot f tangent; tt = vdot tangent tangent in
      if i = im \<and> climb s then
        (if neb_method s = ''aseneb'' then
           (case fdiv (2 * ft) tt of
              Inl e \<Rightarrow> Inl e
            | Inr q \<Rightarrow> Inr (arr_sub f (arr_scale q tangent)))
         else Inr (arr_sub f (arr_scale (2 * ft) tangent)))
      else if neb_method s = ''eb'' then
        (case arr_div (arr_scale (- (nt1 - eqlength s)) t1) nt1 of
           Inl e \<Rightarrow> Inl e
         | Inr a \<Rightarrow>
         (case k_at s (i - 1) of
           Inl e \<Rightarrow> Inl e
         | Inr k1 \<Rightarrow>
         (case arr_div (arr_scale (nt2 - eqlength s) t2) nt2 of
           Inl e \<Rightarrow> Inl e
         | Inr b \<Rightarrow>
         (case k_at s i of
           Inl e \<Rightarrow> Inl e
         | Inr k2 \<Rightarrow>
             (let f' = arr_sub f (arr_scale ft tangent);
                  f1 = arr_scale k1 a;
                  f2 = arr_scale k2 b
              in if climb s \<and> (i = im + 1 \<or> i + 1 = im) then
                   (case arr_div (arr_scale (deltav_min en i) (arr_add f1 f2)) (deltav_max en i) of
                      Inl e \<Rightarrow> Inl e
                    | Inr sp \<Rightarrow> Inr (arr_add f' sp))
                 else Inr (arr_add f' (arr_add f1 f2)))))))
      else if neb_method s = ''improvedtangent'' then
        (case k_at s i of
           Inl e \<Rightarrow> Inl e
         | Inr k2 \<Rightarrow>
         (case k_at s (i - 1) of
           Inl e \<Rightarrow> Inl e
         | Inr k1 \<Rightarrow>
             Inr (arr_add (arr_sub f (arr_scale ft tangent))
                    (arr_scale (nt2 * k2 - nt1 * k1) tangent))))
      else
        (case fdiv ft tt of
           Inl e \<Rightarrow> Inl e
         | Inr q \<Rightarrow>
         (case k_at s (i - 1) of
           Inl e \<Rightarrow> Inl e
         | Inr k1 \<Rightarrow>
         (case k_at s i of
           Inl e \<Rightarrow> Inl e
         | Inr k2 \<Rightarrow>
         (case fdiv (vdot (arr_sub (arr_scale k1 t1) (arr_scale k2 t2)) tangent) tt of
           Inl e \<Rightarrow> Inl e
         | Inr q2 \<Rightarrow>
             Inr (arr_sub (arr_sub f (arr_scale q tangent)) (arr_scale q2 tangent)))))))"

text \<open>
  The tolerance of dynamic relaxation for image \<open>i\<close>: \<open>fmax * (1 + rel_pos * scale_fmax)\<close>
  with \<open>rel_pos\<close> the distance between the slices of image \<open>i\<close> and of image \<open>imax\<close> in
  \<open>get_positions()\<close>.
\<close>

definition relax_tolerance :: "neb \<Rightarrow> nat \<Rightarrow> nat \<Rightarrow> error + real" where
  "relax_tolerance s im i =
     (case get_positions s of
        Inl e \<Rightarrow> Inl e
      | Inr p \<Rightarrow>
          (let n = natoms s;
               n1 = n * (i - 1);
               pos_imax = take n (drop ((im - 1) * n) p);
               d = arr_sub (take n (drop n1 p)) pos_imax
           in Inr (fmax s * (1 + sqrt (vdot d d) * scale_fmax s))))"

text \<open>
  The block under \<open>if self.dynamic_relaxation\<close>: an image whose largest row norm is below
  its tolerance gets zero forces, unless it is the image \<open>imax\<close> (\<open>k == self.imax - 1\<close>:
  \<open>pass\<close>).
\<close>

definition relax :: "neb \<Rightarrow> nat \<Rightarrow> nat \<Rightarrow> arr list \<Rightarrow> error + arr list" where
  "relax s im i forces =
     (if dynamic_relaxation s then
        (let n = natoms s; kk = i - 1; n1 = n * kk in
         case row_norm_max (take n (drop n1 (concat forces))) of
           Inl e \<Rightarrow> Inl e
         | Inr force_i \<Rightarrow>
             (case relax_tolerance s im i of
                Inl e \<Rightarrow> Inl e
              | Inr tol \<Rightarrow>
                  if force_i < tol then
                    (if kk = im - 1 then Inr forces
                     else Inr (forces[kk := replicate (natoms s) (0, 0, 0)]))
                  else Inr forces))
      else Inr forces)"

text \<open>\<open>t2\<close> at image \<open>i\<close>: the displacement from image \<open>i\<close> to image \<open>i + 1\<close>.\<close>

definition next_t2 :: "env \<Rightarrow> neb \<Rightarrow> nat \<Rightarrow> arr" where
  "next_t2 ev s i =
     find_mic ev (arr_sub (positions (images s ! (i + 1))) (positions (images s ! i)))
       (cell (images s ! i)) (pbc (images s ! i))"

text \<open>
  The body of the loop for image \<open>i\<close>: tangent, projection into \<open>forces[i - 1]\<close>, dynamic
  relaxation; it hands \<open>t2\<close> and \<open>nt2\<close> on as the next \<open>t1\<close> and \<open>nt1\<close>.
\<close>

definition image_step ::
  "env \<Rightarrow> neb \<Rightarrow> real list \<Rightarrow> nat \<Rightarrow> nat \<Rightarrow> arr \<Rightarrow> real \<Rightarrow> arr list
     \<Rightarrow> error + (arr \<times> real \<times> arr list)" where
  "image_step ev s en im i t1 nt1 forces =
     (let t2 = next_t2 ev s i;
          nt2 = norm_arr t2
      in case tangent_of s en im i t1 nt1 t2 nt2 of
           Inl e \<Rightarrow> Inl e
         | Inr tangent \<Rightarrow>
             (case project s en im i t1 nt1 t2 nt2 tangent (forces ! (i - 1)) of
                Inl e \<Rightarrow> Inl e
              | Inr f \<Rightarrow>
                  (case relax s im i (forces[i - 1 := f]) of
                     Inl e \<Rightarrow> Inl e
                   | Inr forces' \<Rightarrow> Inr (t2, nt2, forces'))))"

text \<open>
  \<open>for i in range(1, nimages - 1)\<close>, in ascending order, carrying \<open>t1\<close> and \<open>nt1\<close> from
  one image to the next. The first argument counts the images still to do.
\<close>

fun force_loop ::
  "env \<Rightarrow> neb \<Rightarrow> real list \<Rightarrow> nat \<Rightarrow> nat \<Rightarrow> nat \<Rightarrow> arr \<Rightarrow> real \<Rightarrow> arr list \<Rightarrow> error + arr list" where
  "force_loop ev s en im 0 i t1 nt1 forces = Inr forces"
| "force_loop ev s en im (Suc todo) i t1 nt1 forces =
     (case image_step ev s en im i t1 nt1 forces of
        Inl e \<Rightarrow> Inl e
      | Inr (t2, nt2, forces') \<Rightarrow> force_loop ev s en im todo (Suc i) t2 nt2 forces')"

subsection \<open>\<open>NEB.get_forces\<close>\<close>

text \<open>
  The energies of the two endpoints are evaluated for every method but \<open>aseneb\<close>, where
  the two slots keep what \<open>np.empty\<close> left in them.
\<close>

definition endpoint_energies :: "env \<Rightarrow> neb \<Rightarrow> error + (real \<times> real)" where
  "endpoint_energies ev s =
     (if neb_method s \<noteq> ''aseneb'' then
        (case image_energy ev (hd (images s)) of
           Inl e \<Rightarrow> Inl e
         | Inr e0 \<Rightarrow>
             (case image_energy ev (last (images s)) of
                Inl e \<Rightarrow> Inl e
              | Inr e1 \<Rightarrow> Inr (e0, e1)))
      else Inr (uninit ev 0, uninit ev (nimages s - 1)))"

text \<open>The chain after the alignment loop, which runs only under the option.\<close>

definition aligned :: "env \<Rightarrow> neb \<Rightarrow> neb" where
  "aligned ev s0 =
     (if remove_rotation_and_translation s0
      then s0\<lparr>images := align_images ev (images s0)\<rparr> else s0)"

text \<open>
  \<open>imax = 1 + np.argsort(energies[1:-1])[-1]\<close>: one more than the last entry of the
  argsort of the interior energies; without interior images that entry does not exist.
\<close>

definition imax_of :: "real list \<Rightarrow> nat" where
  "imax_of en = 1 + last (argsort (interior en))"

text \<open>
  The attributes that the call stores: \<open>energies\<close>, \<open>real_forces\<close> (zero rows for the two
  endpoints around a copy of the raw forces), \<open>imax\<close> and \<open>emax\<close>.
\<close>

definition stored :: "neb \<Rightarrow> real list \<Rightarrow> arr list \<Rightarrow> neb" where
  "stored s en forces =
     s\<lparr>energies := Some en,
       real_forces := Some (replicate (natoms s) (0, 0, 0) # forces @ [replicate (natoms s) (0, 0, 0)]),
       imax := Some (imax_of en),
       emax := Some (en ! imax_of en)\<rparr>"

text \<open>\<open>t1\<close> before the loop: the displacement from image 0 to image 1.\<close>

definition first_t1 :: "env \<Rightarrow> neb \<Rightarrow> arr" where
  "first_t1 ev s =
     find_mic ev (arr_sub (positions (images s ! 1)) (positions (images s ! 0)))
       (cell (images s ! 0)) (pbc (images s ! 0))"

text \<open>
  The first part of the call, up to the line that stores \<open>emax\<close>: the test of the
  calculators, the alignment, the evaluation of the images, and the attributes
  \<open>energies\<close>, \<open>real_forces\<close>, \<open>imax\<close> and \<open>emax\<close>. Nothing is divided here, and nothing
  after it writes one of the four attributes again: the value is the object as the call
  leaves it, whether the loop over the images completes, produces \<open>nan\<close> or raises. It
  comes with the energies and the raw forces of the interior images.
\<close>

definition NEB_evaluate :: "env \<Rightarrow> neb \<Rightarrow> error + (neb \<times> real list \<times> arr list)" where
  "NEB_evaluate ev s0 =
     (if \<not> distinct (List.map_filter calc (images s0))
      then Inl (ValueError ''One or more NEB images share the same calculator.  Each image must have its own calculator.  You may wish to use the ase.neb.SingleCalculatorNEB class instead, although using separate calculators is recommended.'')
      else if nimages s0 < 2
      then Inl (ValueError ''negative dimensions are not allowed'')
      else
        (let s = aligned ev s0
         in case endpoint_energies ev s of
              Inl e \<Rightarrow> Inl e
            | Inr (e0, e1) \<Rightarrow>
                (case eval_images ev (natoms s) (interior (images s)) of
                   Inl e \<Rightarrow> Inl e
                 | Inr ef \<Rightarrow>
                     (let en = e0 # map fst ef @ [e1];
                          forces = map snd ef
                      in if interior en = [] then Inl IndexError
                         else Inr (stored s en forces, en, forces)))))"

text \<open>
  The whole call: the first part, then the loop over the interior images, which starts
  from the displacement of image 1 from image 0 in the aligned chain. It returns the
  forces reshaped to rows, and the object.
\<close>

definition NEB_get_forces :: "env \<Rightarrow> neb \<Rightarrow> error + (arr \<times> neb)" where
  "NEB_get_forces ev s0 =
     (case NEB_evaluate ev s0 of
        Inl e \<Rightarrow> Inl e
      | Inr (s', en, forces) \<Rightarrow>
          (let t1 = first_t1 ev (aligned ev s0)
           in case force_loop ev s' en (imax_of en) (nimages s0 - 2) 1 t1 (norm_arr t1) forces of
                Inl e \<Rightarrow> Inl e
              | Inr forces' \<Rightarrow> Inr (concat forces', s')))"

text \<open>
  \<open>ChainOfStates.get_fmax_all(self)\<close> on an \<open>NEB\<close>: it evaluates the forces anew and takes
  the largest row norm of each image's block.
\<close>

fun fmax_images :: "nat \<Rightarrow> arr \<Rightarrow> nat list \<Rightarrow> error + real list" where
  "fmax_images n f_i [] = Inr []"
| "fmax_images n f_i (i # rest) =
     (case row_norm_max (take n (drop (n * i) f_i)) of
        Inl e \<Rightarrow> Inl e
      | Inr m \<Rightarrow>
          (case fmax_images n f_i rest of
             Inl e \<Rightarrow> Inl e
           | Inr ms \<Rightarrow> Inr (m # ms)))"

definition get_fmax_all :: "env \<Rightarrow> neb \<Rightarrow> error + (real list \<times> neb)" where
  "get_fmax_all ev s =
     (case NEB_get_forces ev s of
        Inl e \<Rightarrow> Inl e
      | Inr (f_i, s') \<Rightarrow>
          (case fmax_images (natoms s') f_i [0..<nimages s' - 2] of
             Inl e \<Rightarrow> Inl e
           | Inr ms \<Rightarrow> Inr (ms, s')))"

section \<open>\<open>IDPP.calculate\<close>\<close>

text \<open>
  For every atom \<open>p\<close> the rows \<open>Di = P - p\<close> and their lengths \<open>di\<close>, from \<open>find_mic\<close> when
  \<open>mic\<close> is set: \<open>D[i][j] = P[j] - P[i]\<close>.
\<close>

definition idpp_D :: "env \<Rightarrow> bool \<Rightarrow> image \<Rightarrow> arr list" where
  "idpp_D ev mic img =
     map (\<lambda>p. let Di = map (\<lambda>q. v_sub q p) (positions img)
              in if mic then find_mic ev Di (cell img) (pbc img) else Di)
         (positions img)"

definition idpp_d :: "env \<Rightarrow> bool \<Rightarrow> image \<Rightarrow> real list list" where
  "idpp_d ev mic img =
     map (\<lambda>p. let Di = map (\<lambda>q. v_sub q p) (positions img)
              in if mic then find_mic_len ev Di (cell img) (pbc img) else map row_norm Di)
         (positions img)"

text \<open>\<open>d.ravel()[::len(d) + 1] = 1\<close>: the diagonal of the square matrix is set to 1.\<close>

definition set_diag :: "real list list \<Rightarrow> real list list" where
  "set_diag d = map (\<lambda>(i, row). row[i := 1]) (zip [0..<length d] d)"

text \<open>\<open>.sum(0)\<close> of an array of shape \<open>(n, n, 3)\<close>: the sum over the first index.\<close>

definition sum_axis0 :: "nat \<Rightarrow> arr list \<Rightarrow> arr" where
  "sum_axis0 n rows = foldr arr_add rows (replicate n (0, 0, 0))"

text \<open>
  Energy and forces. \<open>dd\<close> is taken before the diagonal of \<open>d\<close> is overwritten. Every
  entry of \<open>d\<close> is a divisor.
\<close>

definition IDPP_calculate :: "env \<Rightarrow> real list list \<Rightarrow> bool \<Rightarrow> image \<Rightarrow> error + (real \<times> arr)" where
  "IDPP_calculate ev target mic img =
     (let d0 = idpp_d ev mic img;
          D = idpp_D ev mic img;
          dd = map2 (map2 (-)) d0 target;
          d = set_diag d0
      in if list_ex (list_ex (\<lambda>x. x = 0)) d then Inl NonFinite
         else
           Inr (0.5 * sum_list (map sum_list (map2 (map2 (\<lambda>a b. a\<^sup>2 / b ^ 4)) dd d)),
                arr_scale (- 2)
                  (sum_axis0 (length (positions img))
                     (map2 (map2 v_scale)
                        (map2 (map2 (\<lambda>a b. a * (1 - 2 * a / b) / b ^ 5)) dd d) D))))"

text \<open>
  The formulas of the specification, by index, for the comparison with
  \<open>IDPP_calculate\<close>. They are stated over the displacements \<open>Dv i j\<close> (\<open>D_ij\<close>) and the
  lengths \<open>dl i j\<close> (\<open>d_ij\<close> before the diagonal is replaced): \<open>d_ij\<close> with the diagonal
  replaced by 1, \<open>Delta_ij = d_ij - T_ij\<close> from the raw lengths, and the factor
  \<open>Delta_ij (1 - 2 Delta_ij / d_ij) / d_ij^5\<close>.
\<close>

definition spec_d :: "(nat \<Rightarrow> nat \<Rightarrow> real) \<Rightarrow> nat \<Rightarrow> nat \<Rightarrow> real" where
  "spec_d dl i j = (if i = j then 1 else dl i j)"

definition spec_Delta :: "(nat \<Rightarrow> nat \<Rightarrow> real) \<Rightarrow> real list list \<Rightarrow> nat \<Rightarrow> nat \<Rightarrow> real" where
  "spec_Delta dl T i j = dl i j - T ! i ! j"

definition spec_factor :: "(nat \<Rightarrow> nat \<Rightarrow> real) \<Rightarrow> real list list \<Rightarrow> nat \<Rightarrow> nat \<Rightarrow> real" where
  "spec_factor dl T i j =
     spec_Delta dl T i j * (1 - 2 * spec_Delta dl T i j / spec_d dl i j) / spec_d dl i j ^ 5"

definition spec_energy :: "nat \<Rightarrow> (nat \<Rightarrow> nat \<Rightarrow> real) \<Rightarrow> real list list \<Rightarrow> real" where
  "spec_energy n dl T =
     1 / 2 * (\<Sum>i < n. \<Sum>j < n. (spec_Delta dl T i j)\<^sup>2 / spec_d dl i j ^ 4)"

text \<open>
  The force on atom \<open>i\<close> in the words of the specification, a sum over the second index:
  \<open>f_i = -2 sum_j factor_ij D_ij\<close>.
\<close>

definition spec_force ::
  "nat \<Rightarrow> (nat \<Rightarrow> nat \<Rightarrow> vec3) \<Rightarrow> (nat \<Rightarrow> nat \<Rightarrow> real) \<Rightarrow> real list list \<Rightarrow> nat \<Rightarrow> vec3" where
  "spec_force n Dv dl T i =
     v_scale (- 2)
       (foldr v_add (map (\<lambda>j. v_scale (spec_factor dl T i j) (Dv i j)) [0..<n]) (0, 0, 0))"

text \<open>The sum that the code takes, over the first index: \<open>f_j = -2 sum_i factor_ij D_ij\<close>.\<close>

definition axis0_force ::
  "nat \<Rightarrow> (nat \<Rightarrow> nat \<Rightarrow> vec3) \<Rightarrow> (nat \<Rightarrow> nat \<Rightarrow> real) \<Rightarrow> real list list \<Rightarrow> nat \<Rightarrow> vec3" where
  "axis0_force n Dv dl T j =
     v_scale (- 2)
       (foldr v_add (map (\<lambda>i. v_scale (spec_factor dl T i j) (Dv i j)) [0..<n]) (0, 0, 0))"

text \<open>
  Displacements and lengths without \<open>mic\<close>, \<open>D_ij = p_j - p_i\<close> and \<open>d_ij = |D_ij|\<close>, and
  with \<open>mic\<close>, where they are what \<open>find_mic\<close> returns for the rows \<open>P - p_i\<close>.
\<close>

definition raw_D :: "arr \<Rightarrow> nat \<Rightarrow> nat \<Rightarrow> vec3" where
  "raw_D P i j = v_sub (P ! j) (P ! i)"

definition raw_d :: "arr \<Rightarrow> nat \<Rightarrow> nat \<Rightarrow> real" where
  "raw_d P i j = row_norm (raw_D P i j)"

definition mic_D :: "env \<Rightarrow> image \<Rightarrow> nat \<Rightarrow> nat \<Rightarrow> vec3" where
  "mic_D ev img i j =
     find_mic ev (map (\<lambda>q. v_sub q (positions img ! i)) (positions img)) (cell img) (pbc img) ! j"

definition mic_d :: "env \<Rightarrow> image \<Rightarrow> nat \<Rightarrow> nat \<Rightarrow> real" where
  "mic_d ev img i j =
     find_mic_len ev (map (\<lambda>q. v_sub q (positions img ! i)) (positions img)) (cell img) (pbc img) ! j"

text \<open>\<open>find_mic\<close> returns one displacement and one length for each row it is given.\<close>

definition mic_shapes :: "env \<Rightarrow> image \<Rightarrow> bool" where
  "mic_shapes ev img \<longleftrightarrow>
     list_all (\<lambda>p.
        length (find_mic ev (map (\<lambda>q. v_sub q p) (positions img)) (cell img) (pbc img))
          = length (positions img) \<and>
        length (find_mic_len ev (map (\<lambda>q. v_sub q p) (positions img)) (cell img) (pbc img))
          = length (positions img))
       (positions img)"

text \<open>No length between two different atoms is zero.\<close>

definition apart :: "nat \<Rightarrow> (nat \<Rightarrow> nat \<Rightarrow> real) \<Rightarrow> bool" where
  "apart n dl \<longleftrightarrow> (\<forall>i < n. \<forall>j < n. i \<noteq> j \<longrightarrow> dl i j \<noteq> 0)"

section \<open>\<open>PreconMEP\<close>\<close>

record mep = chain +
  mep_method :: string
  mep_k :: "real list"
  residuals :: "real list"

text \<open>
  The collaborators of the preconditioned driver, taken as parameters: the operations of
  the preconditioner of image \<open>i\<close>, the derivatives of scipy's \<open>CubicSpline(s, x)\<close> (of
  the given order, at a point), and the optional callback \<open>get_all_forces\<close>.
\<close>

record penv =
  precon_dot :: "nat \<Rightarrow> real list \<Rightarrow> real list \<Rightarrow> real"
  precon_norm :: "nat \<Rightarrow> real list \<Rightarrow> real"
  precon_apply :: "nat \<Rightarrow> real list \<Rightarrow> image \<Rightarrow> real list"
  precon_Pdot :: "nat \<Rightarrow> real list \<Rightarrow> real list"
  spline_derivative :: "real list \<Rightarrow> real list list \<Rightarrow> nat \<Rightarrow> real \<Rightarrow> real list"
  get_all_forces :: "(image list \<Rightarrow> arr list) option"

datatype norm_arg = Precon | Callable "real list \<Rightarrow> real"

subsection \<open>\<open>PreconMEP.spline_fit\<close>\<close>

text \<open>
  The distance of image \<open>i\<close> from image \<open>i - 1\<close>. With the norm \<open>precon\<close> it is
  \<open>sqrt(0.5 * (precon[i].dot(dx, dx) + precon[i-1].dot(dx, dx)))\<close>; numpy's square root
  of a negative number is \<open>nan\<close>.
\<close>

definition image_distance :: "env \<Rightarrow> penv \<Rightarrow> norm_arg \<Rightarrow> nat \<Rightarrow> image \<Rightarrow> image \<Rightarrow> error + real" where
  "image_distance ev pe nm i prev img =
     (let dx = ravel (find_mic ev (arr_sub (positions img) (positions prev)) (cell prev) (pbc prev))
      in case nm of
           Precon \<Rightarrow>
             (let q = 0.5 * (precon_dot pe i dx dx + precon_dot pe (i - 1) dx dx)
              in if q < 0 then Inl NonFinite else Inr (sqrt q))
         | Callable f \<Rightarrow> Inr (f dx))"

fun d_P_loop :: "env \<Rightarrow> penv \<Rightarrow> norm_arg \<Rightarrow> nat \<Rightarrow> image \<Rightarrow> image list \<Rightarrow> error + real list" where
  "d_P_loop ev pe nm i prev [] = Inr []"
| "d_P_loop ev pe nm i prev (img # rest) =
     (case image_distance ev pe nm i prev img of
        Inl e \<Rightarrow> Inl e
      | Inr dp \<Rightarrow>
          (case d_P_loop ev pe nm (Suc i) img rest of
             Inl e \<Rightarrow> Inl e
           | Inr dps \<Rightarrow> Inr (dp # dps)))"

text \<open>\<open>d_P\<close>: entry 0 stays zero, entry \<open>i\<close> is the distance of image \<open>i\<close> from image \<open>i - 1\<close>.\<close>

definition d_P :: "env \<Rightarrow> penv \<Rightarrow> norm_arg \<Rightarrow> image list \<Rightarrow> error + real list" where
  "d_P ev pe nm imgs =
     (case imgs of
        [] \<Rightarrow> Inr []
      | first # rest \<Rightarrow>
          (case d_P_loop ev pe nm 1 first rest of
             Inl e \<Rightarrow> Inl e
           | Inr dps \<Rightarrow> Inr (0 # dps)))"

fun cumsum_from :: "real \<Rightarrow> real list \<Rightarrow> real list" where
  "cumsum_from acc [] = []"
| "cumsum_from acc (x # xs) = (acc + x) # cumsum_from (acc + x) xs"

definition cumsum :: "real list \<Rightarrow> real list" where
  "cumsum xs = cumsum_from 0 xs"

text \<open>
  \<open>CubicSpline(s, x, bc_type='not-a-knot')\<close> checks its abscissae before it fits anything:
  there must be at least two, all finite, and each must be greater than the one before it
  (\<open>np.diff(s) <= 0\<close> nowhere); otherwise it raises \<open>ValueError\<close>. The abscissae that reach
  it in the model are real numbers, so the test for finite values has no branch here. The
  spline itself is the pair of \<open>s\<close> and the data \<open>x\<close> it interpolates; its derivative is a
  parameter of the model.
\<close>

definition CubicSpline :: "real list \<Rightarrow> real list list \<Rightarrow> error + (real list \<times> real list list)" where
  "CubicSpline sv x =
     (if length sv < 2 then Inl (ValueError ''`x` must contain at least 2 elements.'')
      else if \<not> successively (<) sv then Inl (ValueError ''`x` must be strictly increasing sequence.'')
      else Inr (sv, x))"

text \<open>
  \<open>spline_fit\<close>: the reaction coordinate \<open>s = d_P.cumsum() / d_P.sum()\<close>, the flattened
  positions \<open>x\<close>, and the spline through them. The division has no test of the sum: for
  a sum of zero the entries of \<open>s\<close> are \<open>nan\<close> or \<open>inf\<close>, the \<open>NonFinite\<close> of the model (in
  the program \<open>CubicSpline\<close> then refuses them, so the call returns nothing either way).
\<close>

definition spline_fit :: "env \<Rightarrow> penv \<Rightarrow> 'a chain_scheme \<Rightarrow> norm_arg \<Rightarrow> error + (real list \<times> real list list)" where
  "spline_fit ev pe c nm =
     (case d_P ev pe nm (images c) of
        Inl e \<Rightarrow> Inl e
      | Inr dp \<Rightarrow>
          if sum_list dp = 0 \<and> dp \<noteq> [] then Inl NonFinite
          else CubicSpline (map (\<lambda>a. a / sum_list dp) (cumsum dp))
                 (map (\<lambda>img. ravel (positions img)) (images c)))"

subsection \<open>\<open>PreconMEP.get_forces\<close> and \<open>force_function\<close>\<close>

definition vec_sub :: "real list \<Rightarrow> real list \<Rightarrow> real list" where
  "vec_sub a b = map2 (-) a b"

definition vec_add :: "real list \<Rightarrow> real list \<Rightarrow> real list" where
  "vec_add a b = map2 (+) a b"

definition vec_scale :: "real \<Rightarrow> real list \<Rightarrow> real list" where
  "vec_scale c a = map ((*) c) a"

definition vec_dot :: "real list \<Rightarrow> real list \<Rightarrow> real" where
  "vec_dot a b = sum_list (map2 (*) a b)"

definition vec_div :: "real list \<Rightarrow> real \<Rightarrow> error + real list" where
  "vec_div a d = (if d = 0 \<and> a \<noteq> [] then Inl NonFinite else Inr (map (\<lambda>x. x / d) a))"

text \<open>\<open>np.linalg.norm(v, np.inf)\<close>: the largest absolute entry; it raises on no entries.\<close>

definition norm_inf :: "real list \<Rightarrow> error + real" where
  "norm_inf v =
     (case v of
        [] \<Rightarrow> Inl (ValueError ''zero-size array to reduction operation maximum which has no identity'')
      | x # xs \<Rightarrow> Inr (fold (\<lambda>y m. max m \<bar>y\<bar>) xs \<bar>x\<bar>))"

definition mep_k_at :: "mep \<Rightarrow> nat \<Rightarrow> error + real" where
  "mep_k_at c j = (if j < length (mep_k c) then Inr (mep_k c ! j) else Inl IndexError)"

text \<open>The raw forces of the interior images, one calculator call each.\<close>

fun mep_eval :: "env \<Rightarrow> nat \<Rightarrow> image list \<Rightarrow> error + arr list" where
  "mep_eval ev n [] = Inr []"
| "mep_eval ev n (img # rest) =
     (case image_forces ev img of
        Inl e \<Rightarrow> Inl e
      | Inr fr \<Rightarrow>
          (case store_rows n fr of
             Inl e \<Rightarrow> Inl e
           | Inr fr' \<Rightarrow>
               (case mep_eval ev n rest of
                  Inl e \<Rightarrow> Inl e
                | Inr frs \<Rightarrow> Inr (fr' # frs))))"

text \<open>
  \<open>forces[...] = self.get_all_forces(images[1:-1])\<close> into the array of shape
  \<open>(nimages - 2, natoms, 3)\<close>: an axis of length one is broadcast, any other mismatch
  raises.
\<close>

fun store_all :: "nat \<Rightarrow> arr list \<Rightarrow> error + arr list" where
  "store_all n [] = Inr []"
| "store_all n (a # rest) =
     (case store_rows n a of
        Inl e \<Rightarrow> Inl e
      | Inr a' \<Rightarrow>
          (case store_all n rest of
             Inl e \<Rightarrow> Inl e
           | Inr rest' \<Rightarrow> Inr (a' # rest')))"

definition broadcast_forces :: "nat \<Rightarrow> nat \<Rightarrow> arr list \<Rightarrow> error + arr list" where
  "broadcast_forces m n fs =
     (case store_all n fs of
        Inl e \<Rightarrow> Inl e
      | Inr fs' \<Rightarrow>
          if length fs' = m then Inr fs'
          else if length fs' = 1 then Inr (replicate m (hd fs'))
          else Inl (ValueError ''could not broadcast input array''))"

definition mep_raw_forces :: "env \<Rightarrow> penv \<Rightarrow> mep \<Rightarrow> error + arr list" where
  "mep_raw_forces ev pe c =
     (case get_all_forces pe of
        Some g \<Rightarrow> broadcast_forces (nimages c - 2) (natoms c) (g (interior (images c)))
      | None \<Rightarrow>
          if \<not> distinct (List.map_filter calc (images c))
          then Inl (ValueError ''One or more NEB images share the same calculator.  Each image must have its own calculator.  '')
          else mep_eval ev (natoms c) (interior (images c)))"

text \<open>
  One image of the loop: the preconditioned force with its component along the band
  removed, the residual, the spring term of the method \<open>neb\<close>, and the assignment
  \<open>forces[i - 1] = pf_vec.reshape((natoms, 3))\<close>.
\<close>

definition mep_image_force ::
  "penv \<Rightarrow> mep \<Rightarrow> real list \<Rightarrow> real list list \<Rightarrow> nat \<Rightarrow> arr \<Rightarrow> error + (arr \<times> real)" where
  "mep_image_force pe c sv x i f =
     (let f_vec = ravel f;
          pf0 = precon_apply pe i f_vec (images c ! i);
          t0 = spline_derivative pe sv x 1 (sv ! i)
      in case vec_div t0 (precon_norm pe i t0) of
           Inl e \<Rightarrow> Inl e
         | Inr t_P \<Rightarrow>
             (let pf1 = vec_sub pf0 (vec_scale (vec_dot t_P f_vec) t_P)
              in case norm_inf (precon_Pdot pe i pf1) of
                   Inl e \<Rightarrow> Inl e
                 | Inr r \<Rightarrow>
                     (case (if mep_method c = ''neb'' then
                              (case mep_k_at c (i - 1) of
                                 Inl e \<Rightarrow> Inl e
                               | Inr k1 \<Rightarrow>
                                   (case mep_k_at c i of
                                      Inl e \<Rightarrow> Inl e
                                    | Inr k2 \<Rightarrow>
                                        Inr (vec_add pf1
                                          (vec_scale
                                            (0.5 * (k1 + k2) / real ((nimages c)\<^sup>2)
                                               * precon_dot pe i (spline_derivative pe sv x 2 (sv ! i)) t_P)
                                            t_P))))
                            else Inr pf1) of
                        Inl e \<Rightarrow> Inl e
                      | Inr pf \<Rightarrow>
                          (case reshape3 pf (natoms c) of
                             Inl e \<Rightarrow> Inl e
                           | Inr a \<Rightarrow> Inr (a, r)))))"

fun mep_loop ::
  "penv \<Rightarrow> mep \<Rightarrow> real list \<Rightarrow> real list list \<Rightarrow> nat \<Rightarrow> arr list \<Rightarrow> error + (arr \<times> real) list" where
  "mep_loop pe c sv x i [] = Inr []"
| "mep_loop pe c sv x i (f # rest) =
     (case mep_image_force pe c sv x i f of
        Inl e \<Rightarrow> Inl e
      | Inr ar \<Rightarrow>
          (case mep_loop pe c sv x (Suc i) rest of
             Inl e \<Rightarrow> Inl e
           | Inr ars \<Rightarrow> Inr (ar # ars)))"

text \<open>
  \<open>PreconMEP.get_forces\<close> returns the array \<open>forces\<close> itself, of three dimensions
  (the source marks it: \<open>FIXME shape not consistent with NEB.get_forces()\<close>): a list, by
  image, of arrays of rows.
\<close>

definition PreconMEP_get_forces :: "env \<Rightarrow> penv \<Rightarrow> mep \<Rightarrow> error + (arr list \<times> mep)" where
  "PreconMEP_get_forces ev pe c =
     (if nimages c < 2 then Inl (ValueError ''negative dimensions are not allowed'')
      else case mep_raw_forces ev pe c of
        Inl e \<Rightarrow> Inl e
      | Inr forces \<Rightarrow>
          (case spline_fit ev pe c Precon of
             Inl e \<Rightarrow> Inl e
           | Inr (sv, x) \<Rightarrow>
               (case mep_loop pe c sv x 1 forces of
                  Inl e \<Rightarrow> Inl e
                | Inr ars \<Rightarrow> Inr (map fst ars, c\<lparr>residuals := map snd ars\<rparr>))))"

text \<open>\<open>force_function(X)\<close>: \<open>set_dofs(X)\<close>, \<open>get_forces()\<close>, and the result flattened.\<close>

definition force_function :: "env \<Rightarrow> penv \<Rightarrow> mep \<Rightarrow> real list \<Rightarrow> error + (real list \<times> mep)" where
  "force_function ev pe c X =
     (case set_dofs c X of
        Inl e \<Rightarrow> Inl e
      | Inr c1 \<Rightarrow>
          (case PreconMEP_get_forces ev pe c1 of
             Inl e \<Rightarrow> Inl e
           | Inr (f, c2) \<Rightarrow> Inr (concat (map ravel f), c2)))"

text \<open>
  The shape of what each entry point returns, as numpy reports it: the rows of
  \<open>NEB.get_forces\<close> form an array of two dimensions, the blocks of
  \<open>PreconMEP.get_forces\<close> one of three (all blocks have the row count of the first).
\<close>

definition shape_rows :: "arr \<Rightarrow> nat list" where
  "shape_rows a = [length a, 3]"

definition shape_blocks :: "nat \<Rightarrow> arr list \<Rightarrow> nat list" where
  "shape_blocks n f = [length f, (case f of [] \<Rightarrow> n | a # _ \<Rightarrow> length a), 3]"

section \<open>Predicates and example chains used in the statements\<close>

text \<open>An \<open>Atoms\<close> object has one atomic number per position.\<close>

definition well_formed :: "image \<Rightarrow> bool" where
  "well_formed img \<longleftrightarrow> length (numbers img) = length (positions img)"

text \<open>All images have the atom count, the boundary conditions and the atomic numbers of image 0.\<close>

definition images_agree :: "image list \<Rightarrow> bool" where
  "images_agree imgs \<longleftrightarrow>
     list_all (\<lambda>img. length (positions img) = length (positions (hd imgs)) \<and>
                     pbc img = pbc (hd imgs) \<and> numbers img = numbers (hd imgs)) imgs"

text \<open>The two kinds of construction error of the specification, as the errors the code raises.\<close>

definition is_ShapeMismatch :: "error \<Rightarrow> bool" where
  "is_ShapeMismatch e \<longleftrightarrow>
     e \<in> set [ValueError ''Images have different numbers of atoms'',
              ValueError ''Images have different boundary conditions'',
              ValueError ''Images have atoms in different orders'']"

definition is_ConfigError :: "error \<Rightarrow> bool" where
  "is_ConfigError e \<longleftrightarrow>
     (\<exists>m. e = NotImplementedError m) \<or>
     e = ValueError ''Scaled convergence criteria only implemented in series with dynamic_relaxation.''"

text \<open>A hydrogen atom on the x axis, in a cell without periodicity, with a calculator.\<close>

definition atom_at :: "real \<Rightarrow> nat option \<Rightarrow> image" where
  "atom_at x c =
     \<lparr>positions = [(x, 0, 0)], numbers = [1], pbc = (False, False, False),
      cell = [(0, 0, 0), (0, 0, 0), (0, 0, 0)], calc = c\<rparr>"

definition line3 :: "image list" where
  "line3 = [atom_at 0 (Some 0), atom_at 1 (Some 1), atom_at 2 (Some 2)]"

definition line4 :: "image list" where
  "line4 = [atom_at 0 (Some 0), atom_at 1 (Some 1), atom_at 2 (Some 2), atom_at 3 (Some 3)]"

text \<open>An image of two atoms, which does not fit a chain of single atoms.\<close>

definition pair_at :: "real \<Rightarrow> real \<Rightarrow> nat option \<Rightarrow> image" where
  "pair_at a b c =
     \<lparr>positions = [(a, 0, 0), (b, 0, 0)], numbers = [1, 1], pbc = (False, False, False),
      cell = [(0, 0, 0), (0, 0, 0), (0, 0, 0)], calc = c\<rparr>"

definition pair_image :: image where
  "pair_image = pair_at 0 1 None"

text \<open>Three images of a pair of atoms on the x axis whose bond stretches along the path.\<close>

definition stretch3 :: "image list" where
  "stretch3 = [pair_at 0 1 (Some 0), pair_at 1 3 (Some 1), pair_at 2 5 (Some 2)]"

text \<open>
  The object that \<open>NEB(images, k=1, fmax=0.05, method=m, climb=cl, dynamic_relaxation=dyn,
  parallel=par, remove_rotation_and_translation=rrt)\<close> constructs, on one process.
\<close>

definition example_neb :: "image list \<Rightarrow> string \<Rightarrow> bool \<Rightarrow> bool \<Rightarrow> bool \<Rightarrow> bool \<Rightarrow> neb" where
  "example_neb imgs m cl dyn par rrt =
     \<lparr>images = imgs, nsteps = 0, natoms = length (positions (hd imgs)), nimages = length imgs,
      climb = cl, parallel = par, emax = None, remove_rotation_and_translation = rrt,
      dynamic_relaxation = dyn, fmax = 1 / 20, scale_fmax = 0, neb_method = m,
      k = replicate (length imgs - 1) 1, world_size = 1, real_forces = None, energies = None,
      imax = None\<rparr>"

definition example_chain :: chain where
  "example_chain = \<lparr>images = line3, nsteps = 0, natoms = 1, nimages = 3\<rparr>"

text \<open>
  The translation part of \<open>minimize_rotation_and_translation(target, atoms)\<close>: the
  centroid of \<open>atoms\<close> is moved onto the centroid of \<open>target\<close>. The function also
  rotates \<open>atoms\<close> about that centroid; when the atoms of both images lie on one line
  through it, in the same order, the best rotation leaves every atom in place, so for
  such images this is all that the function does.
\<close>

definition centroid :: "arr \<Rightarrow> vec3" where
  "centroid a = v_scale (1 / real (length a)) (foldr v_add a (0, 0, 0))"

definition recentre :: "arr \<Rightarrow> arr \<Rightarrow> arr" where
  "recentre target atoms =
     map (\<lambda>p. v_add (v_sub p (centroid atoms)) (centroid target)) atoms"

text \<open>
  A flat potential-energy surface in a cell without periodicity: every calculator
  returns the energy 0 and zero forces, and \<open>find_mic\<close> passes displacements through.
\<close>

definition flat_env :: env where
  "flat_env =
     \<lparr>find_mic = (\<lambda>d c p. d),
      find_mic_len = (\<lambda>d c p. map row_norm d),
      minimize_rotation_and_translation = recentre,
      calc_energy = (\<lambda>c img. 0),
      calc_forces = (\<lambda>c img. map (\<lambda>p. (0, 0, 0)) (positions img)),
      uninit = (\<lambda>i. 0)\<rparr>"

text \<open>What \<open>get_forces\<close> leaves in \<open>self.imax\<close>, and in the positions of the images.\<close>

definition imax_after :: "env \<Rightarrow> neb \<Rightarrow> error + nat option" where
  "imax_after ev s = (case NEB_evaluate ev s of Inl e \<Rightarrow> Inl e | Inr (s', en, forces) \<Rightarrow> Inr (imax s'))"

definition positions_after :: "env \<Rightarrow> neb \<Rightarrow> error + arr list" where
  "positions_after ev s =
     (case NEB_get_forces ev s of Inl e \<Rightarrow> Inl e | Inr (f, s') \<Rightarrow> Inr (map positions (images s')))"

definition forces_after :: "env \<Rightarrow> neb \<Rightarrow> error + arr" where
  "forces_after ev s = (case NEB_get_forces ev s of Inl e \<Rightarrow> Inl e | Inr (f, s') \<Rightarrow> Inr f)"

text \<open>A calculator that pushes every atom with the force \<open>(0, 1, 0)\<close>, across the band.\<close>

definition push_env :: env where
  "push_env = flat_env\<lparr>calc_forces := (\<lambda>c img. map (\<lambda>p. (0, 1, 0)) (positions img))\<rparr>"

text \<open>What the collaborators must keep for the shapes to fit: the number of rows.\<close>

definition env_ok :: "env \<Rightarrow> bool" where
  "env_ok ev \<longleftrightarrow>
     (\<forall>d c p. length (find_mic ev d c p) = length d) \<and>
     (\<forall>t a. length (minimize_rotation_and_translation ev t a) = length a)"

text \<open>
  The identity as preconditioner of every image, and the derivatives of the spline
  through the three images of \<open>line3\<close> at \<open>s = 0, 1/2, 1\<close>: the straight line \<open>x = 2 s\<close>.
\<close>

definition unit_penv :: penv where
  "unit_penv =
     \<lparr>precon_dot = (\<lambda>i u v. vec_dot u v),
      precon_norm = (\<lambda>i v. sqrt (vec_dot v v)),
      precon_apply = (\<lambda>i g img. g),
      precon_Pdot = (\<lambda>i v. v),
      spline_derivative = (\<lambda>sv x order u. if order = 1 then [2, 0, 0] else [0, 0, 0]),
      get_all_forces = None\<rparr>"

definition example_mep :: mep where
  "example_mep =
     \<lparr>images = line3, nsteps = 0, natoms = 1, nimages = 3,
      mep_method = ''string'', mep_k = [1 / 10, 1 / 10], residuals = [0]\<rparr>"

text \<open>Three images of one atom that has not moved.\<close>

definition still3 :: "image list" where
  "still3 = [atom_at 0 (Some 0), atom_at 0 (Some 1), atom_at 0 (Some 2)]"

text \<open>Four images of one atom, the two in the middle at the same place.\<close>

definition stall4 :: "image list" where
  "stall4 = [atom_at 0 (Some 0), atom_at 1 (Some 1), atom_at 1 (Some 2), atom_at 2 (Some 3)]"



text \<open>The rows of image \<open>j\<close> (counted from 0 among the interior images) in a flat array.\<close>

definition block :: "nat \<Rightarrow> nat \<Rightarrow> arr \<Rightarrow> arr" where
  "block n j a = take n (drop (n * j) a)"

text \<open>The array of shape \<open>(n, n)\<close> with the entry \<open>g i j\<close> at row \<open>i\<close> and column \<open>j\<close>.\<close>

definition matrix :: "nat \<Rightarrow> (nat \<Rightarrow> nat \<Rightarrow> 'a) \<Rightarrow> 'a list list" where
  "matrix n g = map (\<lambda>i. map (\<lambda>j. g i j) [0..<n]) [0..<n]"

text \<open>
  Chains for dynamic relaxation on the surface of \<open>push_env\<close>: every image feels a force
  of norm 1 across the band, below the tolerance \<open>fmax = 2\<close>.
\<close>

definition relaxed3 :: neb where
  "relaxed3 = (example_neb line3 ''aseneb'' False True False False)\<lparr>fmax := 2\<rparr>"

definition relaxed4 :: neb where
  "relaxed4 = (example_neb line4 ''aseneb'' False True False False)\<lparr>fmax := 2\<rparr>"

section \<open>Properties\<close>

subsection \<open>Unfolding the model on concrete chains\<close>

lemmas arr_defs = arr_add_def arr_sub_def arr_scale_def v_add_def v_sub_def v_scale_def v_dot_def
  vdot_def norm_arr_def fdiv_def arr_div_def

lemmas step_defs = image_step_def next_t2_def tangent_of_def project_def relax_def k_at_def
  relax_tolerance_def get_positions_def row_norm_max_def row_norm_def eqlength_def
  deltav_max_def deltav_min_def

lemmas call_defs = NEB_get_forces_def NEB_evaluate_def aligned_def align_images_def List.map_filter_def
  interior_def endpoint_energies_def image_energy_def image_forces_def store_rows_def Let_def
  imax_of_def stored_def first_t1_def

lemmas example_defs = example_neb_def line3_def line4_def atom_at_def stretch3_def pair_at_def
  flat_env_def push_env_def recentre_def centroid_def

lemmas mep_defs = PreconMEP_get_forces_def mep_raw_forces_def spline_fit_def CubicSpline_def d_P_def
  image_distance_def cumsum_def mep_image_force_def vec_sub_def vec_add_def vec_scale_def
  vec_dot_def vec_div_def norm_inf_def mep_k_at_def reshape_rows_def reshape3_def ravel_def
  force_function_def
  set_dofs_def set_positions_def image_set_positions_def with_interior_def

lemmas mep_example_defs = unit_penv_def example_mep_def still3_def stall4_def example_chain_def

lemma argsort_one: "argsort [0] = [0]"
  by (simp add: argsort_def)

lemma argsort_two: "argsort [0, 0] = [0, 1]"
  by (simp add: argsort_def upt_rec)

lemma sqrt_nine: "sqrt 9 = 3"
  using real_sqrt_abs [of 3] by simp

subsection \<open>Construction (C9)\<close>

lemma zip_same_no_diff: "\<not> list_ex (\<lambda>(a, b). a \<noteq> b) (zip xs xs)"
  by (induction xs) auto

lemma zip_diff: "length xs = length ys \<Longrightarrow> xs \<noteq> ys \<Longrightarrow> list_ex (\<lambda>(a, b). a \<noteq> b) (zip xs ys)"
  by (induction xs ys rule: list_induct2) auto

lemma check_images_agree:
  "list_all (\<lambda>img. length (positions img) = n \<and> pbc img = pbc first \<and> numbers img = numbers first) imgs
   \<Longrightarrow> check_images first n imgs = Inr ()"
  by (induction imgs) (auto simp: zip_same_no_diff)

lemma check_images_differ:
  assumes "list_all well_formed imgs" "length (numbers first) = n"
    and "\<not> list_all (\<lambda>img. length (positions img) = n \<and> pbc img = pbc first \<and> numbers img = numbers first) imgs"
  shows "\<exists>e. check_images first n imgs = Inl e \<and> is_ShapeMismatch e"
  using assms
proof (induction imgs)
  case Nil
  then show ?case by simp
next
  case (Cons img rest)
  show ?case
  proof (cases "length (positions img) = n \<and> pbc img = pbc first \<and> numbers img = numbers first")
    case True
    with Cons show ?thesis by (auto simp: zip_same_no_diff)
  next
    case False
    then consider "length (positions img) \<noteq> n"
      | "length (positions img) = n" "pbc img \<noteq> pbc first"
      | "length (positions img) = n" "pbc img = pbc first" "numbers img \<noteq> numbers first"
      by blast
    then show ?thesis
    proof cases
      case 1
      then show ?thesis by (simp add: is_ShapeMismatch_def)
    next
      case 2
      then show ?thesis by (simp add: is_ShapeMismatch_def)
    next
      case 3
      from Cons.prems(1) have "length (numbers img) = length (positions img)"
        by (simp add: well_formed_def)
      with 3 Cons.prems(2) have "list_ex (\<lambda>(a, b). a \<noteq> b) (zip (numbers img) (numbers first))"
        by (intro zip_diff) simp_all
      with 3 show ?thesis by (simp add: is_ShapeMismatch_def)
    qed
  qed
qed

lemma ChainOfStates_init_agree:
  assumes "imgs \<noteq> []" "images_agree imgs"
  shows "ChainOfStates_init imgs =
           Inr \<lparr>images = imgs, nsteps = 0, natoms = length (positions (hd imgs)), nimages = length imgs\<rparr>"
proof -
  from assms obtain first rest where imgs: "imgs = first # rest" by (cases imgs) auto
  from assms(2) have "check_images first (length (positions first)) imgs = Inr ()"
    unfolding images_agree_def imgs by (intro check_images_agree) simp
  then show ?thesis by (simp add: ChainOfStates_init_def imgs)
qed

lemma ChainOfStates_init_differ:
  assumes "imgs \<noteq> []" "list_all well_formed imgs" "\<not> images_agree imgs"
  shows "\<exists>e. ChainOfStates_init imgs = Inl e \<and> is_ShapeMismatch e"
proof -
  from assms obtain first rest where imgs: "imgs = first # rest" by (cases imgs) auto
  have "\<exists>e. check_images first (length (positions first)) imgs = Inl e \<and> is_ShapeMismatch e"
  proof (rule check_images_differ)
    show "list_all well_formed imgs" by fact
    show "length (numbers first) = length (positions first)"
      using assms(2) by (simp add: imgs well_formed_def)
    show "\<not> list_all (\<lambda>img. length (positions img) = length (positions first) \<and> pbc img = pbc first \<and> numbers img = numbers first) imgs"
      using assms(3) by (simp add: images_agree_def imgs)
  qed
  then show ?thesis by (auto simp: ChainOfStates_init_def imgs)
qed

text \<open>
  C9. For a non-empty list of well-formed images: when the images differ in atom count,
  boundary conditions or atomic numbers, both constructors fail with one of the three
  shape errors; when the method is unknown, or \<open>scale_fmax\<close> is nonzero without
  \<open>dynamic_relaxation\<close>, the \<open>NEB\<close> constructor fails, with a configuration error if the
  images agree; and with images that agree, a known method, a legal \<open>scale_fmax\<close> and
  (under \<open>parallel\<close>) a communicator that fits, both constructors return an object.
\<close>

theorem construction_errors:
  assumes "imgs \<noteq> []" and "list_all well_formed imgs"
  shows "(\<not> images_agree imgs \<longrightarrow>
            (\<exists>e. ChainOfStates_init imgs = Inl e \<and> is_ShapeMismatch e) \<and>
            (\<exists>e. NEB_init imgs kk fm cl par rrt w m dyn sc = Inl e \<and> is_ShapeMismatch e)) \<and>
         (m \<notin> {''aseneb'', ''improvedtangent'', ''eb''} \<or> (sc \<noteq> 0 \<and> \<not> dyn) \<longrightarrow>
            (\<exists>e. NEB_init imgs kk fm cl par rrt w m dyn sc = Inl e \<and>
                 (if images_agree imgs then is_ConfigError e else is_ShapeMismatch e))) \<and>
         (images_agree imgs \<and> m \<in> {''aseneb'', ''improvedtangent'', ''eb''} \<and> (sc = 0 \<or> dyn) \<and>
          (par \<longrightarrow> w = 1 \<or> (3 \<le> length imgs \<and> w mod (length imgs - 2) = 0)) \<longrightarrow>
            (\<exists>c. ChainOfStates_init imgs = Inr c) \<and>
            (\<exists>s. NEB_init imgs kk fm cl par rrt w m dyn sc = Inr s))"
proof (intro conjI impI)
  assume d: "\<not> images_agree imgs"
  from ChainOfStates_init_differ [OF assms d]
  show "\<exists>e. ChainOfStates_init imgs = Inl e \<and> is_ShapeMismatch e" .
  then show "\<exists>e. NEB_init imgs kk fm cl par rrt w m dyn sc = Inl e \<and> is_ShapeMismatch e"
    by (auto simp: NEB_init_def)
next
  assume bad: "m \<notin> {''aseneb'', ''improvedtangent'', ''eb''} \<or> (sc \<noteq> 0 \<and> \<not> dyn)"
  show "\<exists>e. NEB_init imgs kk fm cl par rrt w m dyn sc = Inl e \<and>
            (if images_agree imgs then is_ConfigError e else is_ShapeMismatch e)"
  proof (cases "images_agree imgs")
    case True
    from ChainOfStates_init_agree [OF assms(1) True] bad show ?thesis
      by (auto simp: NEB_init_def is_ConfigError_def True)
  next
    case False
    from ChainOfStates_init_differ [OF assms False] show ?thesis
      by (auto simp: NEB_init_def False)
  qed
next
  assume ok: "images_agree imgs \<and> m \<in> {''aseneb'', ''improvedtangent'', ''eb''} \<and> (sc = 0 \<or> dyn) \<and>
          (par \<longrightarrow> w = 1 \<or> (3 \<le> length imgs \<and> w mod (length imgs - 2) = 0))"
  then have a: "images_agree imgs" by simp
  from ChainOfStates_init_agree [OF assms(1) a]
  show "\<exists>c. ChainOfStates_init imgs = Inr c" by simp
  from ChainOfStates_init_agree [OF assms(1) a] ok
  show "\<exists>s. NEB_init imgs kk fm cl par rrt w m dyn sc = Inr s"
    by (auto simp: NEB_init_def)
qed

theorem construction_errors_witness:
  "[atom_at 0 None, pair_image] \<noteq> [] \<and> list_all well_formed [atom_at 0 None, pair_image] \<and>
   \<not> images_agree [atom_at 0 None, pair_image] \<and>
   (\<exists>e. ChainOfStates_init [atom_at 0 None, pair_image] = Inl e \<and> is_ShapeMismatch e) \<and>
   (\<exists>e. NEB_init [atom_at 0 None, pair_image] (KScalar 1) (1 / 20) False False False 1 ''aseneb'' False 0 = Inl e
        \<and> is_ShapeMismatch e) \<and>
   line3 \<noteq> [] \<and> list_all well_formed line3 \<and> images_agree line3 \<and>
   ''string'' \<notin> {''aseneb'', ''improvedtangent'', ''eb''} \<and>
   (\<exists>e. NEB_init line3 (KScalar 1) (1 / 20) False False False 1 ''string'' False 0 = Inl e
        \<and> is_ConfigError e) \<and>
   (\<exists>e. NEB_init line3 (KScalar 1) (1 / 20) False False False 1 ''eb'' False (1 / 2) = Inl e
        \<and> is_ConfigError e) \<and>
   (\<exists>c. ChainOfStates_init line3 = Inr c) \<and>
   (\<exists>s. NEB_init line3 (KScalar 1) (1 / 20) False False False 1 ''eb'' False 0 = Inr s)"
proof -
  have wf: "list_all well_formed [atom_at 0 None, pair_image]" "list_all well_formed line3"
    by (simp_all add: well_formed_def atom_at_def pair_image_def pair_at_def line3_def)
  have bad: "\<not> images_agree [atom_at 0 None, pair_image]"
    by (simp add: images_agree_def atom_at_def pair_image_def pair_at_def)
  have ok: "images_agree line3"
    by (simp add: images_agree_def atom_at_def line3_def)
  have ne: "[atom_at 0 None, pair_image] \<noteq> []" "line3 \<noteq> []"
    by (simp_all add: line3_def)
  note a = construction_errors [OF ne(1) wf(1), where kk = "KScalar 1" and fm = "1 / 20" and cl = False
      and par = False and rrt = False and w = 1 and m = "''aseneb''" and dyn = False and sc = "0"]
  note b = construction_errors [OF ne(2) wf(2), where kk = "KScalar 1" and fm = "1 / 20" and cl = False
      and par = False and rrt = False and w = 1 and m = "''string''" and dyn = False and sc = "0"]
  note c = construction_errors [OF ne(2) wf(2), where kk = "KScalar 1" and fm = "1 / 20" and cl = False
      and par = False and rrt = False and w = 1 and m = "''eb''" and dyn = False and sc = "1 / 2"]
  note d = construction_errors [OF ne(2) wf(2), where kk = "KScalar 1" and fm = "1 / 20" and cl = False
      and par = False and rrt = False and w = 1 and m = "''eb''" and dyn = False and sc = "0"]
  show ?thesis
    using a b c d wf bad ok ne by simp
qed

subsection \<open>Positions and degrees of freedom (C6)\<close>

lemma rows3_roundtrip: "length x = 3 * r \<Longrightarrow> ravel (rows3 x) = x \<and> length (rows3 x) = r"
proof (induction r arbitrary: x)
  case 0
  then show ?case by (simp add: ravel_def)
next
  case (Suc r)
  then have "length x = Suc (Suc (Suc (3 * r)))" by simp
  then obtain a b c rest where x: "x = a # b # c # rest" "length rest = 3 * r"
    by (auto simp: length_Suc_conv)
  from Suc.IH [OF x(2)] show ?case by (simp add: x ravel_def)
qed

lemma ravel_rows3: "length x = 3 * r \<Longrightarrow> ravel (rows3 x) = x"
  by (simp add: rows3_roundtrip)

lemma length_rows3: "length x = 3 * r \<Longrightarrow> length (rows3 x) = r"
  by (simp add: rows3_roundtrip)

lemma reshape_rows_interior:
  "2 \<le> m \<Longrightarrow> reshape_rows ((int m - 2) * int n) x = reshape3 x ((m - 2) * n)"
proof -
  assume "2 \<le> m"
  then have "(int m - 2) * int n = int ((m - 2) * n)" by (simp add: of_nat_diff)
  then show ?thesis by (simp add: reshape_rows_def del: of_nat_mult)
qed

lemma set_positions_loop_ok:
  assumes "list_all (\<lambda>img. length (positions img) = n) imgs"
    and "n1 + n * length imgs \<le> length p"
  shows "\<exists>mid. set_positions_loop n p n1 imgs = Inr mid \<and>
           length mid = length imgs \<and>
           list_all (\<lambda>img. length (positions img) = n) mid \<and>
           concat (map positions mid) = take (n * length imgs) (drop n1 p)"
  using assms
proof (induction imgs arbitrary: n1)
  case Nil
  then show ?case by simp
next
  case (Cons img rest)
  have len: "length (take n (drop n1 p)) = length (positions img)"
    using Cons.prems by simp
  from Cons.prems have "list_all (\<lambda>img. length (positions img) = n) rest"
    and "(n1 + n) + n * length rest \<le> length p" by simp_all
  from Cons.IH [OF this] obtain mid where mid:
    "set_positions_loop n p (n1 + n) rest = Inr mid" "length mid = length rest"
    "list_all (\<lambda>img. length (positions img) = n) mid"
    "concat (map positions mid) = take (n * length rest) (drop (n1 + n) p)"
    by blast
  have "take n (drop n1 p) @ take (n * length rest) (drop (n1 + n) p)
          = take (n + n * length rest) (drop n1 p)"
    by (simp add: take_add add.commute)
  with len mid Cons.prems show ?case
    by (simp add: image_set_positions_def)
qed

lemma NEB_loop_eq:
  "\<not> dynamic_relaxation s \<Longrightarrow>
     NEB_set_positions_loop s p n1 imgs = set_positions_loop (natoms s) p n1 imgs"
  by (induction imgs arbitrary: n1) (simp_all split: sum.splits)

lemma interior_with_interior:
  "2 \<le> length imgs \<Longrightarrow> interior (with_interior imgs mid) = mid"
  by (simp add: interior_def with_interior_def butlast_append)

lemma set_interior: "set (interior xs) \<subseteq> set xs"
  by (cases xs) (auto simp: interior_def dest: in_set_butlastD)

lemma length_interior: "length (interior xs) = length xs - 2"
  by (simp add: interior_def)

lemma set_dofs_get_dofs_base:
  assumes "chain_ok c" "2 \<le> nimages c" "length x = 3 * natoms c * (nimages c - 2)"
  shows "\<exists>c'. set_dofs c x = Inr c' \<and> get_dofs c' = Inr x"
proof -
  let ?r = "(nimages c - 2) * natoms c"
  have lx: "length x = 3 * ?r" using assms(3) by (simp add: mult.commute mult.left_commute)
  have li: "length (interior (images c)) = nimages c - 2"
    using assms(1) by (simp add: chain_ok_def length_interior)
  have all: "list_all (\<lambda>img. length (positions img) = natoms c) (interior (images c))"
    using assms(1) set_interior [of "images c"] unfolding chain_ok_def list_all_iff
    by blast
  have "0 + natoms c * length (interior (images c)) \<le> length (rows3 x)"
    by (simp add: li length_rows3 [OF lx] mult.commute)
  from set_positions_loop_ok [OF all this] obtain mid where mid:
    "set_positions_loop (natoms c) (rows3 x) 0 (interior (images c)) = Inr mid"
    "concat (map positions mid) = take (natoms c * length (interior (images c))) (drop 0 (rows3 x))"
    by blast
  have cat: "concat (map positions mid) = rows3 x"
    using mid(2) by (simp add: li length_rows3 [OF lx] mult.commute)
  have l2: "2 \<le> length (images c)" using assms(1,2) by (simp add: chain_ok_def)
  show ?thesis
    using assms(2) mid(1) cat lx
    by (simp add: set_dofs_def reshape_rows_interior reshape3_def set_positions_def get_dofs_def
        get_positions_def interior_with_interior [OF l2] ravel_rows3 [OF lx])
qed

lemma NEB_set_dofs_get_dofs:
  assumes "chain_ok s" "2 \<le> nimages s" "length x = 3 * natoms s * (nimages s - 2)"
    "\<not> dynamic_relaxation s"
  shows "\<exists>s'. NEB_set_dofs s x = Inr s' \<and> get_dofs s' = Inr x"
proof -
  from set_dofs_get_dofs_base [OF assms(1-3)] obtain c' where
    c: "set_dofs s x = Inr c'" "get_dofs c' = Inr x" by blast
  have "\<And>p. NEB_set_positions s p = set_positions s p"
    by (simp add: NEB_set_positions_def set_positions_def NEB_loop_eq [OF assms(4)])
  then have "NEB_set_dofs s x = set_dofs s x"
    by (simp add: NEB_set_dofs_def set_dofs_def cong: sum.case_cong)
  with c show ?thesis by simp
qed

text \<open>
  C6, as stated, fails: an \<open>NEB\<close> with \<open>dynamic_relaxation\<close> and \<open>parallel\<close> refuses
  \<open>set_dofs\<close> with the \<open>ValueError\<close> of \<open>NEB.set_positions\<close>, so nothing is written that
  \<open>get_dofs\<close> could read back.
\<close>

theorem dofs_roundtrip_counterexample:
  "NEB_set_dofs (example_neb line3 ''aseneb'' False True True False) [5, 0, 0] =
     Inl (ValueError ''Dynamic relaxation does not work efficiently when parallelizing over images. Try AutoNEB routine for freezing images in parallel.'')"
  by (simp add: NEB_set_dofs_def NEB_set_positions_def example_neb_def line3_def atom_at_def
      reshape_rows_def reshape3_def interior_def)

text \<open>
  C6, amended. For a chain of at least two images whose cached counts fit its images and
  a vector \<open>x\<close> of length \<open>3 * natoms * (nimages - 2)\<close>: \<open>set_dofs\<close> of the base class
  (which \<open>PreconMEP\<close> inherits) succeeds and \<open>get_dofs\<close> then returns \<open>x\<close>; and the same
  holds for \<open>set_dofs\<close> on an \<open>NEB\<close> without dynamic relaxation.
\<close>

theorem dofs_roundtrip:
  "(chain_ok c \<and> 2 \<le> nimages c \<and> length x = 3 * natoms c * (nimages c - 2) \<longrightarrow>
      (\<exists>c'. set_dofs c x = Inr c' \<and> get_dofs c' = Inr x)) \<and>
   (chain_ok s \<and> 2 \<le> nimages s \<and> length y = 3 * natoms s * (nimages s - 2) \<and>
    \<not> dynamic_relaxation s \<longrightarrow>
      (\<exists>s'. NEB_set_dofs s y = Inr s' \<and> get_dofs s' = Inr y))"
  using set_dofs_get_dofs_base [of c x] NEB_set_dofs_get_dofs [of s y] by blast

theorem dofs_roundtrip_witness:
  "chain_ok example_chain \<and> 2 \<le> nimages example_chain \<and>
   length [5, 0, 0 :: real] = 3 * natoms example_chain * (nimages example_chain - 2) \<and>
   (\<exists>c'. set_dofs example_chain [5, 0, 0] = Inr c' \<and> get_dofs c' = Inr [5, 0, 0]) \<and>
   chain_ok (example_neb line3 ''aseneb'' False False False False) \<and>
   \<not> dynamic_relaxation (example_neb line3 ''aseneb'' False False False False) \<and>
   (\<exists>s'. NEB_set_dofs (example_neb line3 ''aseneb'' False False False False) [5, 0, 0] = Inr s'
        \<and> get_dofs s' = Inr [5, 0, 0])"
proof -
  have a: "chain_ok example_chain \<and> 2 \<le> nimages example_chain \<and>
           length [5, 0, 0 :: real] = 3 * natoms example_chain * (nimages example_chain - 2)"
    by (simp add: chain_ok_def example_chain_def line3_def atom_at_def)
  have b: "chain_ok (example_neb line3 ''aseneb'' False False False False) \<and>
           2 \<le> nimages (example_neb line3 ''aseneb'' False False False False) \<and>
           length [5, 0, 0 :: real] = 3 * natoms (example_neb line3 ''aseneb'' False False False False)
              * (nimages (example_neb line3 ''aseneb'' False False False False) - 2) \<and>
           \<not> dynamic_relaxation (example_neb line3 ''aseneb'' False False False False)"
    by (simp add: chain_ok_def example_neb_def line3_def atom_at_def)
  show ?thesis
    using a b dofs_roundtrip [of example_chain "[5, 0, 0]"
        "example_neb line3 ''aseneb'' False False False False" "[5, 0, 0]"]
    by blast
qed

subsection \<open>The structure of a successful \<open>NEB.get_forces\<close>\<close>

lemma aligned_fields [simp]:
  "natoms (aligned ev s) = natoms s" "nimages (aligned ev s) = nimages s"
  "dynamic_relaxation (aligned ev s) = dynamic_relaxation s"
  "remove_rotation_and_translation (aligned ev s) = remove_rotation_and_translation s"
  by (simp_all add: aligned_def)

lemma NEB_evaluate_Inr:
  assumes "NEB_evaluate ev s0 = Inr (s', en, forces)"
  obtains e0 e1 ef where
    "distinct (List.map_filter calc (images s0))"
    "2 \<le> nimages s0"
    "endpoint_energies ev (aligned ev s0) = Inr (e0, e1)"
    "eval_images ev (natoms s0) (interior (images (aligned ev s0))) = Inr ef"
    "ef \<noteq> []"
    "en = e0 # map fst ef @ [e1]"
    "forces = map snd ef"
    "s' = stored (aligned ev s0) (e0 # map fst ef @ [e1]) (map snd ef)"
proof -
  have i: "interior (e0 # map fst ef @ [e1]) = map fst ef" for e0 e1 :: real and ef :: "(real \<times> arr) list"
    by (simp add: interior_def butlast_append)
  from assms show ?thesis
    unfolding NEB_evaluate_def Let_def
    by (auto simp: i split: if_splits sum.splits prod.splits intro!: that)
qed

lemma NEB_get_forces_evaluate:
  assumes "NEB_get_forces ev s0 = Inr (F, s')"
  obtains en forces out where
    "NEB_evaluate ev s0 = Inr (s', en, forces)"
    "force_loop ev s' en (imax_of en) (nimages s0 - 2) 1 (first_t1 ev (aligned ev s0))
        (norm_arr (first_t1 ev (aligned ev s0))) forces = Inr out"
    "F = concat out"
  using assms unfolding NEB_get_forces_def Let_def
  by (auto split: sum.splits prod.splits)

lemma NEB_get_forces_Inr:
  assumes "NEB_get_forces ev s0 = Inr (F, s')"
  obtains e0 e1 ef out where
    "distinct (List.map_filter calc (images s0))"
    "2 \<le> nimages s0"
    "endpoint_energies ev (aligned ev s0) = Inr (e0, e1)"
    "eval_images ev (natoms s0) (interior (images (aligned ev s0))) = Inr ef"
    "ef \<noteq> []"
    "s' = stored (aligned ev s0) (e0 # map fst ef @ [e1]) (map snd ef)"
    "force_loop ev s' (e0 # map fst ef @ [e1]) (imax_of (e0 # map fst ef @ [e1]))
        (nimages s0 - 2) 1 (first_t1 ev (aligned ev s0)) (norm_arr (first_t1 ev (aligned ev s0)))
        (map snd ef) = Inr out"
    "F = concat out"
proof -
  from assms obtain en forces out where
    ev: "NEB_evaluate ev s0 = Inr (s', en, forces)"
    and lp: "force_loop ev s' en (imax_of en) (nimages s0 - 2) 1 (first_t1 ev (aligned ev s0))
        (norm_arr (first_t1 ev (aligned ev s0))) forces = Inr out"
    and F: "F = concat out"
    by (rule NEB_get_forces_evaluate)
  from ev obtain e0 e1 ef where
    a: "distinct (List.map_filter calc (images s0))" "2 \<le> nimages s0"
      "endpoint_energies ev (aligned ev s0) = Inr (e0, e1)"
      "eval_images ev (natoms s0) (interior (images (aligned ev s0))) = Inr ef"
      "ef \<noteq> []"
    and en: "en = e0 # map fst ef @ [e1]" and fo: "forces = map snd ef"
    and s': "s' = stored (aligned ev s0) (e0 # map fst ef @ [e1]) (map snd ef)"
    by (rule NEB_evaluate_Inr)
  from lp have lp': "force_loop ev s' (e0 # map fst ef @ [e1]) (imax_of (e0 # map fst ef @ [e1]))
        (nimages s0 - 2) 1 (first_t1 ev (aligned ev s0)) (norm_arr (first_t1 ev (aligned ev s0)))
        (map snd ef) = Inr out"
    by (simp only: en fo)
  from a s' lp' F show ?thesis by (rule that)
qed

subsection \<open>\<open>NEB.set_positions\<close> under dynamic relaxation (C4)\<close>

text \<open>
  C4. The code at the failing input: an \<open>NEB\<close> of three images with
  \<open>dynamic_relaxation\<close> and without \<open>parallel\<close>. \<open>set_positions\<close> raises \<open>TypeError\<close> at
  the first interior image, from the call \<open>self.get_fmax_all(self.images)\<close>; no image is
  frozen and none is overwritten.
\<close>

theorem set_positions_type_error:
  "NEB_set_positions (example_neb line3 ''aseneb'' False True False False) [(5, 0, 0)] =
     Inl (TypeError ''get_fmax_all() takes 1 positional argument but 2 were given'')"
  by (simp add: NEB_set_positions_def example_neb_def line3_def interior_def)

subsection \<open>The index of the highest image (C2)\<close>

lemma sort_key_const: "\<forall>x\<in>set xs. f x = c \<Longrightarrow> sort_key f xs = xs"
proof (induction xs)
  case Nil
  then show ?case by simp
next
  case (Cons x xs)
  then have "sort_key f xs = xs" by simp
  with Cons.prems show ?case by (cases xs) simp_all
qed

lemma argsort_const:
  assumes "\<forall>x\<in>set xs. x = e"
  shows "argsort xs = [0..<length xs]"
proof -
  have "\<forall>p\<in>set (zip xs [0..<length xs]). fst p = e"
    using assms by (auto dest: set_zip_leftD)
  then have "sort_key fst (zip xs [0..<length xs]) = zip xs [0..<length xs]"
    by (rule sort_key_const)
  then show ?thesis by (simp add: argsort_def)
qed

lemma length_eval_images: "eval_images ev n imgs = Inr ef \<Longrightarrow> length ef = length imgs"
  by (induction imgs arbitrary: ef) (auto split: sum.splits)

lemma length_align_loop [simp]: "length (align_loop ev prev imgs) = length imgs"
  by (induction imgs arbitrary: prev) (simp_all add: Let_def)

lemma length_align_images [simp]: "length (align_images ev imgs) = length imgs"
  by (simp add: align_images_def split: list.splits)

lemma length_images_aligned [simp]: "length (images (aligned ev s)) = length (images s)"
  by (simp add: aligned_def)


lemma calc_align_loop [simp]: "map calc (align_loop ev prev imgs) = map calc imgs"
  by (induction imgs arbitrary: prev) (simp_all add: Let_def)

lemma calc_aligned: "map calc (images (aligned ev s)) = map calc (images s)"
  by (simp add: aligned_def align_images_def split: list.splits)

lemma eval_images_returns:
  assumes "\<forall>img\<in>set imgs. calc img \<noteq> None" "\<forall>c img. length (calc_forces ev c img) = n"
  shows "\<exists>ef. eval_images ev n imgs = Inr ef"
  using assms(1)
proof (induction imgs)
  case Nil
  then show ?case by simp
next
  case (Cons img rest)
  then obtain c ef where c: "calc img = Some c" and ef: "eval_images ev n rest = Inr ef"
    by auto
  from assms(2) have "store_rows n (calc_forces ev c img) = Inr (calc_forces ev c img)"
    by (simp add: store_rows_def)
  with c ef show ?case by (simp add: image_energy_def image_forces_def)
qed

text \<open>
  The first part of \<open>get_forces\<close> returns for every chain of three or more images whose
  images have calculators of their own that answer with one row of forces per atom.
\<close>

lemma NEB_evaluate_returns:
  assumes "chain_ok s" "3 \<le> nimages s" "distinct (List.map_filter calc (images s))"
    "\<forall>img\<in>set (images s). calc img \<noteq> None"
    "\<forall>c img. length (calc_forces ev c img) = natoms s"
  shows "\<exists>s' en forces. NEB_evaluate ev s = Inr (s', en, forces)"
proof -
  let ?imgs = "images (aligned ev s)"
  have len: "length ?imgs = nimages s" using assms(1) by (simp add: chain_ok_def)
  have ne: "?imgs \<noteq> []"
  proof
    assume "?imgs = []"
    then have "length ?imgs = 0" by (simp only: list.size)
    with len assms(2) show False by simp
  qed
  have "calc ` set ?imgs = calc ` set (images s)"
    using calc_aligned [of ev s] by (metis set_map)
  with assms(4) have cs: "\<forall>img\<in>set ?imgs. calc img \<noteq> None" by force
  from cs ne obtain c0 c1 where "calc (hd ?imgs) = Some c0" "calc (last ?imgs) = Some c1"
    by (metis hd_in_set last_in_set not_Some_eq)
  then have "\<exists>e0 e1. endpoint_energies ev (aligned ev s) = Inr (e0, e1)"
    by (simp add: endpoint_energies_def image_energy_def)
  then obtain e0 e1 where ee: "endpoint_energies ev (aligned ev s) = Inr (e0, e1)" by blast
  have "set (interior ?imgs) \<subseteq> set ?imgs"
    using ne by (auto simp: interior_def dest!: in_set_butlastD list.set_sel(2))
  with cs have "\<forall>img\<in>set (interior ?imgs). calc img \<noteq> None" by blast
  from eval_images_returns [OF this assms(5)] obtain ef where
    ef: "eval_images ev (natoms s) (interior ?imgs) = Inr ef" by blast
  from length_eval_images [OF ef] len assms(2) have "ef \<noteq> []"
    by (auto simp: length_interior)
  with ee ef assms(2,3) show ?thesis
    by (simp add: NEB_evaluate_def Let_def interior_def butlast_append)
qed

text \<open>
  C2, as stated, fails: on a flat surface with four images (two interior ones) the call
  leaves \<open>imax = 2\<close>, not 1.
\<close>

theorem imax_flat_counterexample:
  "imax_after flat_env (example_neb line4 ''aseneb'' False False False False) = Inr (Some 2)"
  by (simp add: imax_after_def call_defs example_defs argsort_two numeral_2_eq_2 numeral_3_eq_3)

text \<open>
  C2, amended. If all interior energies are equal (and there are at most 16 interior
  images), \<open>get_forces\<close> leaves \<open>imax = nimages - 2\<close>: the last entry of the argsort is the
  highest interior index (which is 1 only for three images). \<open>imax\<close> is stored before the
  loop over the images, so this holds for every method and with or without \<open>climb\<close>,
  also where the loop goes on to divide by a zero norm or a zero energy difference;
  a call that completes returns the object with these attributes.
\<close>

theorem imax_flat:
  assumes "NEB_evaluate ev s = Inr (s', en, forces)" and "chain_ok s"
    and "\<forall>x\<in>set (interior en). x = e" and "nimages s \<le> 18"
  shows "energies s' = Some en \<and> imax s' = Some (nimages s - 2) \<and>
         (\<forall>F s2. NEB_get_forces ev s = Inr (F, s2) \<longrightarrow> s2 = s')"
proof -
  from assms(1) obtain e0 e1 ef where
    ef: "eval_images ev (natoms s) (interior (images (aligned ev s))) = Inr ef" "ef \<noteq> []"
    and en: "en = e0 # map fst ef @ [e1]"
    and s': "s' = stored (aligned ev s) (e0 # map fst ef @ [e1]) (map snd ef)"
    by (rule NEB_evaluate_Inr)
  have int: "interior en = map fst ef" by (simp add: en interior_def butlast_append)
  have len: "length ef = nimages s - 2"
    using length_eval_images [OF ef(1)] assms(2) by (simp add: length_interior chain_ok_def)
  from assms(3) have "argsort (interior en) = [0..<length (interior en)]"
    by (rule argsort_const)
  then have "argsort (interior en) = [0..<length ef]" by (simp add: int)
  moreover have "0 < length ef" using ef(2) by simp
  ultimately have "last (argsort (interior en)) = length ef - 1"
    by (simp add: last_upt)
  then have "imax_of en = length ef" using \<open>0 < length ef\<close> by (simp add: imax_of_def)
  then have a: "energies s' = Some en" "imax s' = Some (nimages s - 2)"
    by (simp_all add: s' stored_def en [symmetric] len)
  have "s2 = s'" if "NEB_get_forces ev s = Inr (F, s2)" for F s2
  proof -
    from that obtain en2 forces2 where "NEB_evaluate ev s = Inr (s2, en2, forces2)"
      by (rule NEB_get_forces_evaluate)
    with assms(1) show ?thesis by simp
  qed
  with a show ?thesis by blast
qed

lemma get_forces_line4:
  "\<exists>F s'. NEB_get_forces flat_env (example_neb line4 ''aseneb'' False False False False) = Inr (F, s')
      \<and> energies s' = Some [0, 0, 0, 0] \<and> images s' = line4"
  by (simp add: call_defs example_defs step_defs arr_defs argsort_two
      numeral_2_eq_2 numeral_3_eq_3)

theorem imax_flat_witness:
  "(\<exists>s' forces F.
      NEB_evaluate flat_env (example_neb line4 ''aseneb'' False False False False)
        = Inr (s', [0, 0, 0, 0], forces) \<and>
      chain_ok (example_neb line4 ''aseneb'' False False False False) \<and>
      list_all (\<lambda>x. x = 0) (interior [0, 0, 0, 0 :: real]) \<and>
      nimages (example_neb line4 ''aseneb'' False False False False) \<le> 18 \<and>
      NEB_get_forces flat_env (example_neb line4 ''aseneb'' False False False False) = Inr (F, s') \<and>
      energies s' = Some [0, 0, 0, 0] \<and>
      imax s' = Some (nimages (example_neb line4 ''aseneb'' False False False False) - 2)) \<and>
   (\<exists>s' forces.
      NEB_evaluate flat_env (example_neb line4 ''improvedtangent'' False False False False)
        = Inr (s', [0, 0, 0, 0], forces) \<and>
      chain_ok (example_neb line4 ''improvedtangent'' False False False False) \<and>
      nimages (example_neb line4 ''improvedtangent'' False False False False) \<le> 18 \<and>
      NEB_get_forces flat_env (example_neb line4 ''improvedtangent'' False False False False)
        = Inl NonFinite \<and>
      energies s' = Some [0, 0, 0, 0] \<and>
      imax s' = Some (nimages (example_neb line4 ''improvedtangent'' False False False False) - 2))"
proof -
  let ?A = "example_neb line4 ''aseneb'' False False False False"
  let ?B = "example_neb line4 ''improvedtangent'' False False False False"
  have "\<exists>s' forces. NEB_evaluate flat_env ?A = Inr (s', [0, 0, 0, 0], forces)"
    by (simp add: call_defs example_defs)
  then obtain sa fa where a: "NEB_evaluate flat_env ?A = Inr (sa, [0, 0, 0, 0], fa)" by blast
  have "\<exists>s' forces. NEB_evaluate flat_env ?B = Inr (s', [0, 0, 0, 0], forces)"
    by (simp add: call_defs example_defs)
  then obtain sb fb where b: "NEB_evaluate flat_env ?B = Inr (sb, [0, 0, 0, 0], fb)" by blast
  have c: "chain_ok ?A" "chain_ok ?B"
    by (simp_all add: chain_ok_def example_defs)
  have d: "\<forall>x\<in>set (interior [0, 0, 0, 0 :: real]). x = 0"
    by (simp add: interior_def)
  have e: "nimages ?A \<le> 18" "nimages ?B \<le> 18"
    by (simp_all add: example_defs)
  from get_forces_line4 obtain F s2 where f: "NEB_get_forces flat_env ?A = Inr (F, s2)"
    by blast
  have g: "NEB_get_forces flat_env ?B = Inl NonFinite"
    by (simp add: call_defs example_defs step_defs arr_defs argsort_two
        numeral_2_eq_2 numeral_3_eq_3)
  from imax_flat [OF a c(1) d e(1)] f have h: "s2 = sa" by blast
  from imax_flat [OF a c(1) d e(1)] imax_flat [OF b c(2) d e(2)] a b c d e f g h
  show ?thesis by (auto simp: list_all_iff)
qed

subsection \<open>The endpoints (C1)\<close>

lemma hd_align_images: "hd (align_images ev imgs) = hd imgs"
  by (simp add: align_images_def split: list.splits)

lemma images_stored [simp]: "images (stored s en f) = images s"
  by (simp add: stored_def)

lemma get_forces_images:
  assumes "NEB_get_forces ev s = Inr (F, s')"
  shows "images s' = images (aligned ev s)"
proof -
  from assms obtain e0 e1 ef where
    "s' = stored (aligned ev s) (e0 # map fst ef @ [e1]) (map snd ef)"
    by (rule NEB_get_forces_Inr)
  then show ?thesis by simp
qed

lemma with_interior_ends:
  "2 \<le> length imgs \<Longrightarrow>
     hd (with_interior imgs mid) = hd imgs \<and> last (with_interior imgs mid) = last imgs"
  by (simp add: with_interior_def)

lemma length_set_positions_loop:
  "set_positions_loop n p n1 imgs = Inr mid \<Longrightarrow> length mid = length imgs"
  by (induction imgs arbitrary: n1 mid) (auto split: sum.splits)

lemma length_NEB_set_positions_loop:
  "NEB_set_positions_loop s p n1 imgs = Inr mid \<Longrightarrow> length mid = length imgs"
  by (induction imgs arbitrary: n1 mid) (auto split: sum.splits if_splits)

lemma length_with_interior:
  "length mid = length (interior imgs) \<Longrightarrow> length (with_interior imgs mid) = length imgs"
  by (auto simp: with_interior_def interior_def)

text \<open>
  C1, as stated, fails: with \<open>remove_rotation_and_translation\<close> the alignment loop of
  \<open>get_forces\<close> runs up to the last image. Here the last image of three, a pair of atoms
  at \<open>x = 2\<close> and \<open>x = 5\<close>, is at \<open>x = -1\<close> and \<open>x = 2\<close> after the call.
\<close>

theorem endpoints_frame_counterexample:
  "positions_after flat_env (example_neb stretch3 ''aseneb'' False False False True) =
     Inr [[(0, 0, 0), (1, 0, 0)], [(- 1 / 2, 0, 0), (3 / 2, 0, 0)], [(- 1, 0, 0), (2, 0, 0)]]"
  by (simp add: positions_after_def call_defs example_defs step_defs arr_defs argsort_one
      numeral_2_eq_2 numeral_3_eq_3)

text \<open>
  C1, amended. A successful \<open>NEB.get_forces\<close> leaves image 0 and the number of images as
  they were, and without \<open>remove_rotation_and_translation\<close> it leaves every image as it
  was; \<open>set_positions\<close> of \<open>NEB\<close> and of the base class leave the first and the last
  image as they were; \<open>PreconMEP.get_forces\<close> leaves every image as it was.
\<close>

theorem endpoints_frame:
  "(NEB_get_forces ev s = Inr (F, s') \<longrightarrow>
      hd (images s') = hd (images s) \<and> length (images s') = length (images s) \<and>
      (\<not> remove_rotation_and_translation s \<longrightarrow> images s' = images s)) \<and>
   (NEB_set_positions s p = Inr s1 \<and> 2 \<le> length (images s) \<longrightarrow>
      hd (images s1) = hd (images s) \<and> last (images s1) = last (images s) \<and>
      length (images s1) = length (images s)) \<and>
   (set_positions c p = Inr c1 \<and> 2 \<le> length (images c) \<longrightarrow>
      hd (images c1) = hd (images c) \<and> last (images c1) = last (images c) \<and>
      length (images c1) = length (images c)) \<and>
   (PreconMEP_get_forces ev pe m = Inr (G, m') \<longrightarrow> images m' = images m)"
proof (intro conjI impI)
  assume a: "NEB_get_forces ev s = Inr (F, s')"
  from get_forces_images [OF a] show "hd (images s') = hd (images s)"
    by (simp add: aligned_def hd_align_images)
  from get_forces_images [OF a] show "length (images s') = length (images s)"
    by simp
  assume "\<not> remove_rotation_and_translation s"
  with get_forces_images [OF a] show "images s' = images s"
    by (simp add: aligned_def)
next
  assume a: "NEB_set_positions s p = Inr s1 \<and> 2 \<le> length (images s)"
  then obtain mid where mid: "NEB_set_positions_loop s p 0 (interior (images s)) = Inr mid"
    and s1: "s1 = s\<lparr>images := with_interior (images s) mid\<rparr>"
    by (auto simp: NEB_set_positions_def split: sum.splits)
  from a s1 show "hd (images s1) = hd (images s)" "last (images s1) = last (images s)"
    by (simp_all add: with_interior_ends)
  from s1 length_NEB_set_positions_loop [OF mid] show "length (images s1) = length (images s)"
    by (simp add: length_with_interior)
next
  assume a: "set_positions c p = Inr c1 \<and> 2 \<le> length (images c)"
  then obtain mid where mid: "set_positions_loop (natoms c) p 0 (interior (images c)) = Inr mid"
    and c1: "c1 = c\<lparr>images := with_interior (images c) mid\<rparr>"
    by (auto simp: set_positions_def split: sum.splits)
  from a c1 show "hd (images c1) = hd (images c)" "last (images c1) = last (images c)"
    by (simp_all add: with_interior_ends)
  from c1 length_set_positions_loop [OF mid] show "length (images c1) = length (images c)"
    by (simp add: length_with_interior)
next
  assume "PreconMEP_get_forces ev pe m = Inr (G, m')"
  then show "images m' = images m"
    by (auto simp: PreconMEP_get_forces_def split: if_splits sum.splits prod.splits)
qed

lemma get_forces_stretch3:
  "\<exists>F s'. NEB_get_forces flat_env (example_neb stretch3 ''aseneb'' False False False True) = Inr (F, s')"
  by (simp add: call_defs example_defs step_defs arr_defs argsort_one
      numeral_2_eq_2 numeral_3_eq_3)

lemma set_positions_line3:
  "\<exists>s1. NEB_set_positions (example_neb line3 ''aseneb'' False False False False) [(5, 0, 0)] = Inr s1"
  "\<exists>c1. set_positions example_chain [(5, 0, 0)] = Inr c1"
  by (simp_all add: NEB_set_positions_def mep_defs mep_example_defs example_defs interior_def)

lemma get_forces_example_mep:
  "PreconMEP_get_forces flat_env unit_penv example_mep =
     Inr ([[(0, 0, 0)]], example_mep\<lparr>residuals := [0]\<rparr>)"
  by (simp add: mep_defs mep_example_defs call_defs example_defs arr_defs
      numeral_2_eq_2 numeral_3_eq_3)

theorem endpoints_frame_witness:
  "\<exists>F s' F2 s2 s1 c1 G m'.
     NEB_get_forces flat_env (example_neb stretch3 ''aseneb'' False False False True) = Inr (F, s') \<and>
     hd (images s') = hd stretch3 \<and> length (images s') = 3 \<and>
     NEB_get_forces flat_env (example_neb line4 ''aseneb'' False False False False) = Inr (F2, s2) \<and>
     \<not> remove_rotation_and_translation (example_neb line4 ''aseneb'' False False False False) \<and>
     images s2 = line4 \<and>
     NEB_set_positions (example_neb line3 ''aseneb'' False False False False) [(5, 0, 0)] = Inr s1 \<and>
     2 \<le> length (images (example_neb line3 ''aseneb'' False False False False)) \<and>
     hd (images s1) = hd line3 \<and> last (images s1) = last line3 \<and>
     set_positions example_chain [(5, 0, 0)] = Inr c1 \<and> 2 \<le> length (images example_chain) \<and>
     hd (images c1) = hd line3 \<and> last (images c1) = last line3 \<and>
     PreconMEP_get_forces flat_env unit_penv example_mep = Inr (G, m') \<and> images m' = line3"
proof -
  from get_forces_stretch3 obtain F s' where
    a: "NEB_get_forces flat_env (example_neb stretch3 ''aseneb'' False False False True) = Inr (F, s')"
    by blast
  from get_forces_line4 obtain F2 s2 where
    b: "NEB_get_forces flat_env (example_neb line4 ''aseneb'' False False False False) = Inr (F2, s2)"
    by blast
  from set_positions_line3 obtain s1 c1 where
    c: "NEB_set_positions (example_neb line3 ''aseneb'' False False False False) [(5, 0, 0)] = Inr s1"
    and d: "set_positions example_chain [(5, 0, 0)] = Inr c1" by blast
  note e = get_forces_example_mep
  have f: "\<not> remove_rotation_and_translation (example_neb line4 ''aseneb'' False False False False)"
    "2 \<le> length (images (example_neb line3 ''aseneb'' False False False False))"
    "2 \<le> length (images example_chain)"
    "images (example_neb stretch3 ''aseneb'' False False False True) = stretch3"
    "images (example_neb line4 ''aseneb'' False False False False) = line4"
    "images (example_neb line3 ''aseneb'' False False False False) = line3"
    "images example_chain = line3" "images example_mep = line3" "length stretch3 = 3"
    by (simp_all add: example_neb_def example_chain_def example_mep_def line3_def stretch3_def)
  from endpoints_frame [where ev = flat_env
      and s = "example_neb stretch3 ''aseneb'' False False False True" and F = F and s' = s'
      and p = "[(5, 0, 0)]" and ?s1.0 = s1 and c = example_chain and ?c1.0 = c1
      and pe = unit_penv and m = example_mep and G = "[[(0, 0, 0)]]"
      and m' = "example_mep\<lparr>residuals := [0]\<rparr>"]
    endpoints_frame [where ev = flat_env
      and s = "example_neb line4 ''aseneb'' False False False False" and F = F2 and s' = s2
      and p = "[(5, 0, 0)]" and ?s1.0 = s1 and c = example_chain and ?c1.0 = c1
      and pe = unit_penv and m = example_mep and G = "[[(0, 0, 0)]]"
      and m' = "example_mep\<lparr>residuals := [0]\<rparr>"]
    endpoints_frame [where ev = flat_env
      and s = "example_neb line3 ''aseneb'' False False False False"
      and p = "[(5, 0, 0)]" and ?s1.0 = s1 and c = example_chain and ?c1.0 = c1
      and pe = unit_penv and m = example_mep and G = "[[(0, 0, 0)]]"
      and m' = "example_mep\<lparr>residuals := [0]\<rparr>"]
    a b c d e f
  show ?thesis by (intro exI [of _ F] exI [of _ s'] exI [of _ F2] exI [of _ s2] exI [of _ s1]
      exI [of _ c1] exI [of _ "[[(0, 0, 0)]]"] exI [of _ "example_mep\<lparr>residuals := [0]\<rparr>"]) simp
qed

subsection \<open>The neighbours of the climbing image under \<open>eb\<close> (C5)\<close>

text \<open>
  C5. The code at the failing input: four images on a flat surface, method \<open>eb\<close>,
  \<open>climb\<close>. \<open>imax\<close> is 2, image 1 is its neighbour, its three energies are equal so
  \<open>deltavmax = 0\<close>, and the source divides the spring forces by it. Without \<open>climb\<close> the
  same chain has no division by zero and zero forces.
\<close>

theorem flat_triplet_division:
  "forces_after flat_env (example_neb line4 ''eb'' True False False False) = Inl NonFinite \<and>
   forces_after flat_env (example_neb line4 ''eb'' False False False False) = Inr [(0, 0, 0), (0, 0, 0)]"
  by (simp add: forces_after_def call_defs example_defs step_defs arr_defs argsort_two sqrt_nine
      numeral_2_eq_2 numeral_3_eq_3)

subsection \<open>The reaction coordinate of \<open>PreconMEP.spline_fit\<close> (C7)\<close>

lemma length_cumsum_from [simp]: "length (cumsum_from acc xs) = length xs"
  by (induction xs arbitrary: acc) simp_all

lemma cumsum_from_Nil [simp]: "cumsum_from acc xs = [] \<longleftrightarrow> xs = []"
  by (cases xs) simp_all




















subsection \<open>Energy and forces of \<open>IDPP.calculate\<close> (C8)\<close>

lemma map_upt_nth: "map f xs = map (\<lambda>i. f (xs ! i)) [0..<length xs]"
  by (rule nth_equalityI) simp_all

lemma map2_upt: "map2 f (map a [0..<n]) (map b [0..<n]) = map (\<lambda>i. f (a i) (b i)) [0..<n]"
  by (rule nth_equalityI) simp_all

lemma matrix_map2: "map2 (map2 f) (matrix n g) (matrix n h) = matrix n (\<lambda>i j. f (g i j) (h i j))"
  by (simp add: matrix_def map2_upt)

lemma matrix_of_rows:
  assumes "length T = n" "\<forall>row\<in>set T. length row = n"
  shows "T = matrix n (\<lambda>i j. T ! i ! j)"
  using assms unfolding matrix_def by (auto intro!: nth_equalityI)

lemma set_diag_matrix: "set_diag (matrix n g) = matrix n (\<lambda>i j. if i = j then 1 else g i j)"
  unfolding set_diag_def matrix_def by (auto intro!: nth_equalityI simp: nth_list_update)

lemma matrix_ex: "list_ex (list_ex Q) (matrix n g) \<longleftrightarrow> (\<exists>i<n. \<exists>j<n. Q (g i j))"
  by (auto simp: matrix_def list_ex_iff Bex_def)

lemma sum_list_upt: "sum_list (map f [0..<n]) = (\<Sum>i<n. f i)"
  by (simp add: interv_sum_list_conv_sum_set_nat atLeast0LessThan)

lemma matrix_sum: "sum_list (map sum_list (matrix n g)) = (\<Sum>i<n. \<Sum>j<n. g i j)"
  by (simp add: matrix_def comp_def sum_list_upt)

lemma sum_axis0_rows:
  "foldr arr_add (map (\<lambda>i. map (\<lambda>j. h i j) [0..<n]) idx) (replicate n z)
     = map (\<lambda>j. foldr v_add (map (\<lambda>i. h i j) idx) z) [0..<n]"
proof (induction idx)
  case Nil
  show ?case by (rule nth_equalityI) simp_all
next
  case (Cons i idx)
  then show ?case by (simp add: arr_add_def map2_upt)
qed

lemma sum_axis0_matrix:
  "sum_axis0 n (matrix n h) = map (\<lambda>j. foldr v_add (map (\<lambda>i. h i j) [0..<n]) (0, 0, 0)) [0..<n]"
  by (simp add: sum_axis0_def matrix_def sum_axis0_rows)

lemma row_norm_zero: "row_norm v = 0 \<longleftrightarrow> v = (0, 0, 0)"
proof -
  obtain x y z where v: "v = (x, y, z)" by (cases v) auto
  have "x * x + y * y + z * z = 0 \<longleftrightarrow> x = 0 \<and> y = 0 \<and> z = 0"
    by (metis add_nonneg_eq_0_iff add_nonneg_nonneg mult_eq_0_iff zero_le_square)
  then show ?thesis by (simp add: v row_norm_def v_dot_def)
qed

lemma v_sub_zero: "v_sub q p = (0, 0, 0) \<longleftrightarrow> q = p"
  by (cases q; cases p) (simp add: v_sub_def)

lemma idpp_d_plain: "idpp_d ev False img = matrix (length (positions img)) (raw_d (positions img))"
  unfolding idpp_d_def matrix_def Let_def
  by (auto intro!: nth_equalityI simp: raw_d_def raw_D_def)

lemma idpp_D_plain: "idpp_D ev False img = matrix (length (positions img)) (raw_D (positions img))"
  unfolding idpp_D_def matrix_def Let_def
  by (auto intro!: nth_equalityI simp: raw_D_def)

lemma idpp_d_mic:
  "mic_shapes ev img \<Longrightarrow> idpp_d ev True img = matrix (length (positions img)) (mic_d ev img)"
  unfolding idpp_d_def matrix_def Let_def mic_shapes_def list_all_iff
  by (auto intro!: nth_equalityI simp: mic_d_def)

lemma idpp_D_mic:
  "mic_shapes ev img \<Longrightarrow> idpp_D ev True img = matrix (length (positions img)) (mic_D ev img)"
  unfolding idpp_D_def matrix_def Let_def mic_shapes_def list_all_iff
  by (auto intro!: nth_equalityI simp: mic_D_def)

lemma raw_apart: "distinct P \<Longrightarrow> apart (length P) (raw_d P)"
  by (auto simp: apart_def raw_d_def raw_D_def row_norm_zero v_sub_zero nth_eq_iff_index_eq)

lemma diagonal_terms:
  "(spec_Delta (raw_d P) T i i)\<^sup>2 / spec_d (raw_d P) i i ^ 4 = (T ! i ! i)\<^sup>2"
  "v_scale (spec_factor (raw_d P) T i i) (raw_D P i i) = (0, 0, 0)"
  by (simp_all add: spec_Delta_def spec_d_def raw_d_def raw_D_def row_norm_def v_sub_def
      v_dot_def v_scale_def split: prod.split)

lemma idpp_formulas_matrix:
  assumes "length T = n" and "\<forall>row\<in>set T. length row = n"
    and "length (positions img) = n"
    and d0: "idpp_d ev mic img = matrix n dl" and D: "idpp_D ev mic img = matrix n Dv"
    and "apart n dl"
  shows "IDPP_calculate ev T mic img =
           Inr (spec_energy n dl T, map (axis0_force n Dv dl T) [0..<n])"
proof -
  have T: "T = matrix n (\<lambda>i j. T ! i ! j)"
    by (rule matrix_of_rows [OF assms(1,2)])
  have "map2 (map2 (-)) (matrix n dl) (matrix n (\<lambda>i j. T ! i ! j))
          = matrix n (\<lambda>i j. spec_Delta dl T i j)"
    by (simp add: matrix_map2 spec_Delta_def)
  with T have dd: "map2 (map2 (-)) (matrix n dl) T = matrix n (\<lambda>i j. spec_Delta dl T i j)"
    by metis
  have d: "set_diag (matrix n dl) = matrix n (\<lambda>i j. spec_d dl i j)"
    by (simp add: set_diag_matrix spec_d_def)
  have nz: "\<not> list_ex (list_ex (\<lambda>x. x = 0)) (set_diag (matrix n dl))"
    using assms(6) by (auto simp: d matrix_ex spec_d_def apart_def)
  have e: "0.5 * sum_list (map sum_list (map2 (map2 (\<lambda>a b. a\<^sup>2 / b ^ 4))
              (map2 (map2 (-)) (matrix n dl) T) (set_diag (matrix n dl))))
           = spec_energy n dl T"
    by (simp add: dd d matrix_map2 matrix_sum spec_energy_def)
  have f: "arr_scale (- 2) (sum_axis0 n (map2 (map2 v_scale)
              (map2 (map2 (\<lambda>a b. a * (1 - 2 * a / b) / b ^ 5))
                 (map2 (map2 (-)) (matrix n dl) T) (set_diag (matrix n dl)))
              (matrix n Dv)))
           = map (axis0_force n Dv dl T) [0..<n]"
    by (simp add: dd d matrix_map2 sum_axis0_matrix arr_scale_def
        axis0_force_def spec_factor_def)
  show ?thesis
    unfolding IDPP_calculate_def Let_def d0 D assms(3) using nz e f by simp
qed

text \<open>
  C8, as stated, fails in its force: for two atoms at \<open>x = 0\<close> and \<open>x = 1\<close> with the
  target distance 2 the code returns the force \<open>(-6, 0, 0)\<close> on atom 0 (away from atom
  1), while the sum over the second index, \<open>-2 sum_j factor_0j D_0j\<close> with
  \<open>D_ij = p_j - p_i\<close>, is \<open>(6, 0, 0)\<close>.
\<close>

theorem idpp_formulas_counterexample:
  "IDPP_calculate flat_env [[0, 2], [2, 0]] False pair_image = Inr (1, [(- 6, 0, 0), (6, 0, 0)]) \<and>
   spec_force 2 (raw_D (positions pair_image)) (raw_d (positions pair_image)) [[0, 2], [2, 0]] 0 = (6, 0, 0)"
  by (simp add: IDPP_calculate_def idpp_d_def idpp_D_def set_diag_def sum_axis0_def
      pair_image_def pair_at_def spec_force_def spec_factor_def spec_Delta_def spec_d_def
      raw_D_def raw_d_def row_norm_def v_dot_def v_sub_def v_scale_def v_add_def arr_add_def
      arr_scale_def Let_def upt_rec numeral_2_eq_2)

text \<open>
  C8, amended. For a square target matrix \<open>T\<close> of the size of the atoms:
  the energy is \<open>1/2 sum_ij Delta_ij^2 / d_ij^4\<close> and the force on atom \<open>j\<close> is
  \<open>-2 sum_i factor_ij D_ij\<close>, the sum over the first index, with \<open>Delta = d - T\<close> from the
  raw lengths and the diagonal of \<open>d\<close> replaced by 1; this holds without \<open>mic\<close> when no
  two atoms have the same position, and with \<open>mic\<close> when \<open>find_mic\<close> returns a row for
  every atom and no zero length between two different atoms. Under these conditions no
  divisor is zero. (Without \<open>mic\<close> the diagonal adds \<open>T_ii^2 / 2\<close> to the energy, which
  is zero for a target with zero diagonal, and nothing to the force: \<open>diagonal_terms\<close>.)
\<close>

theorem idpp_formulas:
  "(length T = length (positions img) \<and> list_all (\<lambda>row. length row = length (positions img)) T \<and>
    distinct (positions img) \<longrightarrow>
      IDPP_calculate ev T False img =
        Inr (spec_energy (length (positions img)) (raw_d (positions img)) T,
             map (axis0_force (length (positions img)) (raw_D (positions img)) (raw_d (positions img)) T)
               [0..<length (positions img)])) \<and>
   (length T = length (positions img) \<and> list_all (\<lambda>row. length row = length (positions img)) T \<and>
    mic_shapes ev img \<and> apart (length (positions img)) (mic_d ev img) \<longrightarrow>
      IDPP_calculate ev T True img =
        Inr (spec_energy (length (positions img)) (mic_d ev img) T,
             map (axis0_force (length (positions img)) (mic_D ev img) (mic_d ev img) T)
               [0..<length (positions img)]))"
proof (intro conjI impI)
  assume a: "length T = length (positions img) \<and>
    list_all (\<lambda>row. length row = length (positions img)) T \<and> distinct (positions img)"
  then have rows: "\<forall>row\<in>set T. length row = length (positions img)" by (simp add: list_all_iff)
  from a show "IDPP_calculate ev T False img =
        Inr (spec_energy (length (positions img)) (raw_d (positions img)) T,
             map (axis0_force (length (positions img)) (raw_D (positions img)) (raw_d (positions img)) T)
               [0..<length (positions img)])"
    by (intro idpp_formulas_matrix rows idpp_d_plain idpp_D_plain raw_apart) simp_all
next
  assume a: "length T = length (positions img) \<and>
    list_all (\<lambda>row. length row = length (positions img)) T \<and>
    mic_shapes ev img \<and> apart (length (positions img)) (mic_d ev img)"
  then have rows: "\<forall>row\<in>set T. length row = length (positions img)" by (simp add: list_all_iff)
  from a show "IDPP_calculate ev T True img =
        Inr (spec_energy (length (positions img)) (mic_d ev img) T,
             map (axis0_force (length (positions img)) (mic_D ev img) (mic_d ev img) T)
               [0..<length (positions img)])"
    by (intro idpp_formulas_matrix rows idpp_d_mic idpp_D_mic) simp_all
qed

theorem idpp_formulas_witness:
  "length [[0, 2], [2, 0 :: real]] = length (positions pair_image) \<and>
   list_all (\<lambda>row. length row = length (positions pair_image)) [[0, 2], [2, 0 :: real]] \<and>
   distinct (positions pair_image) \<and> mic_shapes flat_env pair_image \<and>
   apart (length (positions pair_image)) (mic_d flat_env pair_image) \<and>
   IDPP_calculate flat_env [[0, 2], [2, 0]] False pair_image =
     Inr (spec_energy 2 (raw_d (positions pair_image)) [[0, 2], [2, 0]],
          map (axis0_force 2 (raw_D (positions pair_image)) (raw_d (positions pair_image)) [[0, 2], [2, 0]])
            [0..<2]) \<and>
   IDPP_calculate flat_env [[0, 2], [2, 0]] True pair_image =
     Inr (spec_energy 2 (mic_d flat_env pair_image) [[0, 2], [2, 0]],
          map (axis0_force 2 (mic_D flat_env pair_image) (mic_d flat_env pair_image) [[0, 2], [2, 0]])
            [0..<2])"
proof -
  have a: "length [[0, 2], [2, 0 :: real]] = length (positions pair_image)"
    "list_all (\<lambda>row. length row = length (positions pair_image)) [[0, 2], [2, 0 :: real]]"
    "distinct (positions pair_image)" "length (positions pair_image) = 2"
    by (simp_all add: pair_image_def pair_at_def)
  have b: "mic_shapes flat_env pair_image"
    by (simp add: mic_shapes_def pair_image_def pair_at_def flat_env_def)
  have c: "apart (length (positions pair_image)) (mic_d flat_env pair_image)"
    by (simp add: apart_def mic_d_def pair_image_def pair_at_def flat_env_def row_norm_def
        v_dot_def v_sub_def less_Suc_eq numeral_2_eq_2)
  from idpp_formulas [of "[[0, 2], [2, 0]]" pair_image flat_env] a b c
  show ?thesis by simp
qed

subsection \<open>Shapes through the loop of \<open>NEB.get_forces\<close>\<close>

lemma align_loop_lengths:
  assumes "env_ok ev"
  shows "list_all (\<lambda>img. length (positions img) = n) imgs \<Longrightarrow>
         list_all (\<lambda>img. length (positions img) = n) (align_loop ev prev imgs)"
  using assms by (induction imgs arbitrary: prev) (simp_all add: Let_def env_ok_def)

lemma chain_ok_aligned: "env_ok ev \<Longrightarrow> chain_ok s \<Longrightarrow> chain_ok (aligned ev s)"
  by (auto simp: chain_ok_def aligned_def align_images_def align_loop_lengths split: list.splits)

lemma chain_ok_stored [simp]: "chain_ok (stored s en f) = chain_ok s"
  by (simp add: chain_ok_def stored_def)

lemma stored_fields [simp]:
  "natoms (stored s en f) = natoms s" "nimages (stored s en f) = nimages s"
  "dynamic_relaxation (stored s en f) = dynamic_relaxation s"
  "imax (stored s en f) = Some (imax_of en)"
  by (simp_all add: stored_def)

lemma chain_ok_positions:
  "chain_ok s \<Longrightarrow> j < nimages s \<Longrightarrow> length (positions (images s ! j)) = natoms s"
  by (simp add: chain_ok_def list_all_length)

lemma eval_images_blocks:
  "eval_images ev n imgs = Inr ef \<Longrightarrow> \<forall>b\<in>set (map snd ef). length b = n"
  by (induction imgs arbitrary: ef) (auto simp: store_rows_def split: sum.splits if_splits)

lemma length_arr_div: "arr_div a d = Inr b \<Longrightarrow> length b = length a"
  by (auto simp: arr_div_def split: if_splits)

lemma length_tangent_of:
  "tangent_of s en im i t1 nt1 t2 nt2 = Inr tg \<Longrightarrow> length t1 = n \<Longrightarrow> length t2 = n
     \<Longrightarrow> length tg = n"
  by (auto simp: tangent_of_def Let_def arr_add_def arr_scale_def
      dest!: length_arr_div split: if_splits sum.splits)

lemma length_project:
  "project s en im i t1 nt1 t2 nt2 tg f = Inr f' \<Longrightarrow> length t1 = n \<Longrightarrow> length t2 = n
     \<Longrightarrow> length tg = n \<Longrightarrow> length f = n \<Longrightarrow> length f' = n"
  by (auto simp: project_def Let_def arr_add_def arr_sub_def arr_scale_def
      dest!: length_arr_div split: if_splits sum.splits)

lemma concat_block:
  "\<forall>b\<in>set fs. length b = n \<Longrightarrow> j < length fs \<Longrightarrow> take n (drop (n * j) (concat fs)) = fs ! j"
proof (induction fs arbitrary: j)
  case Nil
  then show ?case by simp
next
  case (Cons b fs)
  show ?case
  proof (cases j)
    case 0
    with Cons.prems show ?thesis by simp
  next
    case (Suc j')
    with Cons.prems have "take n (drop (n * j') (concat fs)) = fs ! j'"
      by (intro Cons.IH) simp_all
    with Cons.prems Suc show ?thesis by simp
  qed
qed

lemma length_concat_blocks: "\<forall>b\<in>set fs. length b = n \<Longrightarrow> length (concat fs) = length fs * n"
  by (induction fs) simp_all

lemma relax_off: "\<not> dynamic_relaxation s \<Longrightarrow> relax s im i fs = Inr fs"
  by (simp add: relax_def)

lemma relax_shape:
  assumes "relax s im i fs = Inr fs'" "\<forall>b\<in>set fs. length b = natoms s"
  shows "length fs' = length fs \<and> (\<forall>b\<in>set fs'. length b = natoms s)"
proof -
  from assms(1) have "fs' = fs \<or> fs' = fs[i - 1 := replicate (natoms s) (0, 0, 0)]"
    by (auto simp: relax_def Let_def split: if_splits sum.splits)
  with assms(2) show ?thesis
    by (auto dest!: subsetD [OF set_update_subset_insert])
qed

lemma relax_dyn:
  assumes "dynamic_relaxation s" "\<forall>b\<in>set fs. length b = natoms s" "i - 1 < length fs"
    "1 \<le> i" "1 \<le> im" "relax s im i fs = Inr fs'"
  shows "\<exists>m tol. row_norm_max (fs ! (i - 1)) = Inr m \<and> relax_tolerance s im i = Inr tol \<and>
           fs' = (if m < tol \<and> i \<noteq> im then fs[i - 1 := replicate (natoms s) (0, 0, 0)] else fs)"
proof -
  have b: "take (natoms s) (drop (natoms s * (i - 1)) (concat fs)) = fs ! (i - 1)"
    by (rule concat_block [OF assms(2,3)])
  have e: "i - 1 = im - 1 \<longleftrightarrow> i = im" using assms(4,5) by auto
  from assms(6) show ?thesis
    unfolding relax_def Let_def b e using assms(1)
    by (auto split: sum.splits if_splits)
qed


lemma off_parts [simp]:
  "k_at (s\<lparr>dynamic_relaxation := False\<rparr>) = k_at s"
  "eqlength (s\<lparr>dynamic_relaxation := False\<rparr>) = eqlength s"
  by (simp_all add: fun_eq_iff k_at_def eqlength_def)

lemma off_fields [simp]:
  "tangent_of (s\<lparr>dynamic_relaxation := False\<rparr>) = tangent_of s"
  "project (s\<lparr>dynamic_relaxation := False\<rparr>) = project s"
  by (simp_all add: fun_eq_iff tangent_of_def project_def Let_def
      cong: sum.case_cong if_cong)

lemma env_ok_mic: "env_ok ev \<Longrightarrow> length (find_mic ev d c p) = length d"
  unfolding env_ok_def by blast

lemma image_step_alt:
  "image_step ev s en im i t1 nt1 fs =
     (case tangent_of s en im i t1 nt1 (next_t2 ev s i) (norm_arr (next_t2 ev s i)) of
        Inl e \<Rightarrow> Inl e
      | Inr tg \<Rightarrow>
          (case project s en im i t1 nt1 (next_t2 ev s i) (norm_arr (next_t2 ev s i)) tg (fs ! (i - 1)) of
             Inl e \<Rightarrow> Inl e
           | Inr f \<Rightarrow>
               (case relax s im i (fs[i - 1 := f]) of
                  Inl e \<Rightarrow> Inl e
                | Inr fs' \<Rightarrow> Inr (next_t2 ev s i, norm_arr (next_t2 ev s i), fs'))))"
  unfolding image_step_def Let_def ..

lemma image_step_Inr:
  assumes "image_step ev s en im i t1 nt1 fs = Inr (t2, nt2, fs')"
  obtains tg f where
    "tangent_of s en im i t1 nt1 (next_t2 ev s i) (norm_arr (next_t2 ev s i)) = Inr tg"
    "project s en im i t1 nt1 (next_t2 ev s i) (norm_arr (next_t2 ev s i)) tg (fs ! (i - 1)) = Inr f"
    "relax s im i (fs[i - 1 := f]) = Inr fs'"
    "t2 = next_t2 ev s i" "nt2 = norm_arr (next_t2 ev s i)"
proof (cases "tangent_of s en im i t1 nt1 (next_t2 ev s i) (norm_arr (next_t2 ev s i))")
  case (Inl e)
  with assms show ?thesis by (simp add: image_step_alt)
next
  case tg: (Inr tg)
  show ?thesis
  proof (cases "project s en im i t1 nt1 (next_t2 ev s i) (norm_arr (next_t2 ev s i)) tg (fs ! (i - 1))")
    case (Inl e)
    with assms tg show ?thesis by (simp add: image_step_alt)
  next
    case f: (Inr f)
    show ?thesis
    proof (cases "relax s im i (fs[i - 1 := f])")
      case (Inl e)
      with assms tg f show ?thesis by (simp add: image_step_alt)
    next
      case (Inr r)
      with assms tg f show ?thesis by (intro that [of tg f]) (auto simp: image_step_alt)
    qed
  qed
qed

lemma image_step_shape:
  assumes "image_step ev s en im i t1 nt1 fs = Inr (t2, nt2, fs')" "env_ok ev"
    and "\<forall>b\<in>set fs. length b = natoms s" "i - 1 < length fs" "length t1 = natoms s"
    and "length (positions (images s ! i)) = natoms s"
    and "length (positions (images s ! (i + 1))) = natoms s"
  shows "length t2 = natoms s \<and> length fs' = length fs \<and> (\<forall>b\<in>set fs'. length b = natoms s)"
proof -
  let ?t2 = "next_t2 ev s i"
  have lt2: "length ?t2 = natoms s"
    using assms(6,7) by (simp add: next_t2_def env_ok_mic [OF assms(2)] arr_sub_def)
  from assms(1) obtain tg f where
    tg: "tangent_of s en im i t1 nt1 ?t2 (norm_arr ?t2) = Inr tg"
    and f: "project s en im i t1 nt1 ?t2 (norm_arr ?t2) tg (fs ! (i - 1)) = Inr f"
    and r: "relax s im i (fs[i - 1 := f]) = Inr fs'" and t2: "t2 = ?t2"
    by (rule image_step_Inr)
  have ltg: "length tg = natoms s" by (rule length_tangent_of [OF tg assms(5) lt2])
  have lf: "length f = natoms s"
    using assms(3,4) by (intro length_project [OF f assms(5) lt2 ltg]) simp
  have "\<forall>b\<in>set (fs[i - 1 := f]). length b = natoms s"
    using assms(3) lf by (auto dest!: subsetD [OF set_update_subset_insert])
  from relax_shape [OF r this] lt2 t2 show ?thesis by simp
qed

lemma force_loop_shape:
  assumes "env_ok ev"
  shows "force_loop ev s en im todo i t1 nt1 fs = Inr out \<Longrightarrow>
    \<forall>b\<in>set fs. length b = natoms s \<Longrightarrow> i - 1 + todo \<le> length fs \<Longrightarrow> 1 \<le> i \<Longrightarrow>
    length t1 = natoms s \<Longrightarrow>
    \<forall>j \<le> i + todo. length (positions (images s ! j)) = natoms s \<Longrightarrow>
    length out = length fs \<and> (\<forall>b\<in>set out. length b = natoms s)"
proof (induction todo arbitrary: i t1 nt1 fs)
  case 0
  then show ?case by simp
next
  case (Suc todo)
  from Suc.prems(1) obtain t2 nt2 fs' where
    st: "image_step ev s en im i t1 nt1 fs = Inr (t2, nt2, fs')"
    and lp: "force_loop ev s en im todo (Suc i) t2 nt2 fs' = Inr out"
    by (auto split: sum.splits)
  have i1: "i - 1 < length fs" using Suc.prems(3,4) by simp
  have p1: "length (positions (images s ! i)) = natoms s"
    "length (positions (images s ! (i + 1))) = natoms s"
    using Suc.prems(6) by simp_all
  have "length t2 = natoms s \<and> length fs' = length fs \<and> (\<forall>b\<in>set fs'. length b = natoms s)"
    by (rule image_step_shape [OF st assms Suc.prems(2) i1 Suc.prems(5) p1])
  then have a: "length t2 = natoms s" "length fs' = length fs" "\<forall>b\<in>set fs'. length b = natoms s"
    by simp_all
  have i2: "Suc i - 1 + todo \<le> length fs'" "1 \<le> Suc i"
    using Suc.prems(3,4) a(2) by simp_all
  have p2: "\<forall>j \<le> Suc i + todo. length (positions (images s ! j)) = natoms s"
    using Suc.prems(6) by simp
  have "length out = length fs' \<and> (\<forall>b\<in>set out. length b = natoms s)"
    by (rule Suc.IH [OF lp a(3) i2 a(1) p2])
  with a show ?case by simp
qed

lemma image_step_dyn:
  assumes "image_step ev s en im i t1 nt1 fs = Inr (t2, nt2, fs')" "env_ok ev"
    and "dynamic_relaxation s" "1 \<le> i" "1 \<le> im"
    and "\<forall>b\<in>set fs. length b = natoms s" "i - 1 < length fs" "length t1 = natoms s"
    and "length (positions (images s ! i)) = natoms s"
    and "length (positions (images s ! (i + 1))) = natoms s"
    and "fs0 ! (i - 1) = fs ! (i - 1)"
  shows "\<exists>f m tol.
     image_step ev (s\<lparr>dynamic_relaxation := False\<rparr>) en im i t1 nt1 fs0 = Inr (t2, nt2, fs0[i - 1 := f]) \<and>
     length f = natoms s \<and>
     row_norm_max f = Inr m \<and> relax_tolerance s im i = Inr tol \<and>
     fs' = fs[i - 1 := (if m < tol \<and> i \<noteq> im then replicate (natoms s) (0, 0, 0) else f)]"
proof -
  let ?t2 = "next_t2 ev s i"
  have lt2: "length ?t2 = natoms s"
    using assms(9,10) by (simp add: next_t2_def env_ok_mic [OF assms(2)] arr_sub_def)
  from assms(1) obtain tg f where
    tg: "tangent_of s en im i t1 nt1 ?t2 (norm_arr ?t2) = Inr tg"
    and f: "project s en im i t1 nt1 ?t2 (norm_arr ?t2) tg (fs ! (i - 1)) = Inr f"
    and r: "relax s im i (fs[i - 1 := f]) = Inr fs'" and t2: "t2 = ?t2" "nt2 = norm_arr ?t2"
    by (rule image_step_Inr)
  have ltg: "length tg = natoms s" by (rule length_tangent_of [OF tg assms(8) lt2])
  have lf: "length f = natoms s"
    using assms(6,7) by (intro length_project [OF f assms(8) lt2 ltg]) simp
  have bl: "\<forall>b\<in>set (fs[i - 1 := f]). length b = natoms s"
    using assms(6) lf by (auto dest!: subsetD [OF set_update_subset_insert])
  have "i - 1 < length (fs[i - 1 := f])" using assms(7) by simp
  from relax_dyn [OF assms(3) bl this assms(4,5) r] obtain m tol where
    m: "row_norm_max ((fs[i - 1 := f]) ! (i - 1)) = Inr m"
    and tol: "relax_tolerance s im i = Inr tol"
    and fs': "fs' = (if m < tol \<and> i \<noteq> im
                     then (fs[i - 1 := f])[i - 1 := replicate (natoms s) (0, 0, 0)]
                     else fs[i - 1 := f])"
    by blast
  have nx: "next_t2 ev (s\<lparr>dynamic_relaxation := False\<rparr>) i = next_t2 ev s i"
    by (simp add: next_t2_def)
  have off: "image_step ev (s\<lparr>dynamic_relaxation := False\<rparr>) en im i t1 nt1 fs0
               = Inr (t2, nt2, fs0[i - 1 := f])"
    using tg f t2 assms(11) by (simp add: image_step_alt nx relax_off)
  from m assms(7) have m': "row_norm_max f = Inr m" by simp
  from fs' have "fs' = fs[i - 1 := (if m < tol \<and> i \<noteq> im then replicate (natoms s) (0, 0, 0) else f)]"
    by simp
  with off lf m' tol show ?thesis by blast
qed

lemma force_loop_dyn:
  assumes "env_ok ev" "dynamic_relaxation s" "1 \<le> im"
  shows "force_loop ev s en im todo i t1 nt1 fs = Inr out \<Longrightarrow>
    \<forall>b\<in>set fs. length b = natoms s \<Longrightarrow> i - 1 + todo \<le> length fs \<Longrightarrow> 1 \<le> i \<Longrightarrow>
    length t1 = natoms s \<Longrightarrow>
    \<forall>j \<le> i + todo. length (positions (images s ! j)) = natoms s \<Longrightarrow>
    length fs0 = length fs \<Longrightarrow>
    \<forall>j. i - 1 \<le> j \<and> j < length fs \<longrightarrow> fs0 ! j = fs ! j \<Longrightarrow>
    \<exists>out0. force_loop ev (s\<lparr>dynamic_relaxation := False\<rparr>) en im todo i t1 nt1 fs0 = Inr out0 \<and>
       length out0 = length fs \<and> length out = length fs \<and>
       (\<forall>j < i - 1. out ! j = fs ! j \<and> out0 ! j = fs0 ! j) \<and>
       (\<forall>j. i - 1 \<le> j \<and> j < i - 1 + todo \<longrightarrow>
          (\<exists>m tol. row_norm_max (out0 ! j) = Inr m \<and> relax_tolerance s im (j + 1) = Inr tol \<and>
             out ! j = (if m < tol \<and> j + 1 \<noteq> im then replicate (natoms s) (0, 0, 0) else out0 ! j)))"
proof (induction todo arbitrary: i t1 nt1 fs fs0)
  case 0
  then show ?case by auto
next
  case (Suc todo)
  let ?z = "replicate (natoms s) (0, 0, 0)"
  from Suc.prems(1) obtain t2 nt2 fs' where
    st: "image_step ev s en im i t1 nt1 fs = Inr (t2, nt2, fs')"
    and lp: "force_loop ev s en im todo (Suc i) t2 nt2 fs' = Inr out"
    by (auto split: sum.splits)
  have i1: "i - 1 < length fs" using Suc.prems(3,4) by simp
  have p1: "length (positions (images s ! i)) = natoms s"
    "length (positions (images s ! (i + 1))) = natoms s"
    using Suc.prems(6) by simp_all
  have sh: "length t2 = natoms s \<and> length fs' = length fs \<and> (\<forall>b\<in>set fs'. length b = natoms s)"
    by (rule image_step_shape [OF st assms(1) Suc.prems(2) i1 Suc.prems(5) p1])
  have e0: "fs0 ! (i - 1) = fs ! (i - 1)" using Suc.prems(8) i1 by simp
  from image_step_dyn [OF st assms(1,2) Suc.prems(4) assms(3) Suc.prems(2) i1 Suc.prems(5) p1 e0]
  obtain f m tol where
    off: "image_step ev (s\<lparr>dynamic_relaxation := False\<rparr>) en im i t1 nt1 fs0
            = Inr (t2, nt2, fs0[i - 1 := f])"
    and lf: "length f = natoms s" and m: "row_norm_max f = Inr m"
    and tol: "relax_tolerance s im i = Inr tol"
    and fs': "fs' = fs[i - 1 := (if m < tol \<and> i \<noteq> im then ?z else f)]"
    by blast
  have i2: "Suc i - 1 + todo \<le> length fs'" "1 \<le> Suc i"
    using Suc.prems(3,4) sh by simp_all
  have p2: "\<forall>j \<le> Suc i + todo. length (positions (images s ! j)) = natoms s"
    using Suc.prems(6) by simp
  have l0: "length (fs0[i - 1 := f]) = length fs'" using Suc.prems(7) sh by simp
  have ag: "\<forall>j. Suc i - 1 \<le> j \<and> j < length fs' \<longrightarrow> (fs0[i - 1 := f]) ! j = fs' ! j"
    using Suc.prems(4,8) sh by (auto simp: fs')
  from Suc.IH [OF lp _ i2 _ p2 l0 ag] sh obtain out0 where
    o: "force_loop ev (s\<lparr>dynamic_relaxation := False\<rparr>) en im todo (Suc i) t2 nt2 (fs0[i - 1 := f]) = Inr out0"
    and lo: "length out0 = length fs'" "length out = length fs'"
    and keep: "\<forall>j < Suc i - 1. out ! j = fs' ! j \<and> out0 ! j = (fs0[i - 1 := f]) ! j"
    and rest: "\<forall>j. Suc i - 1 \<le> j \<and> j < Suc i - 1 + todo \<longrightarrow>
          (\<exists>m tol. row_norm_max (out0 ! j) = Inr m \<and> relax_tolerance s im (j + 1) = Inr tol \<and>
             out ! j = (if m < tol \<and> j + 1 \<noteq> im then ?z else out0 ! j))"
    by blast
  have run: "force_loop ev (s\<lparr>dynamic_relaxation := False\<rparr>) en im (Suc todo) i t1 nt1 fs0 = Inr out0"
    using off o by simp
  have here: "out ! (i - 1) = (if m < tol \<and> i \<noteq> im then ?z else f)" "out0 ! (i - 1) = f"
    using keep Suc.prems(4,7) i1 by (simp_all add: fs')
  have before: "\<forall>j < i - 1. out ! j = fs ! j \<and> out0 ! j = fs0 ! j"
    using keep Suc.prems(4) by (auto simp: fs')
  have "\<exists>m tol. row_norm_max (out0 ! j) = Inr m \<and> relax_tolerance s im (j + 1) = Inr tol \<and>
             out ! j = (if m < tol \<and> j + 1 \<noteq> im then ?z else out0 ! j)"
    if j: "i - 1 \<le> j" "j < i - 1 + Suc todo" for j
  proof (cases "j = i - 1")
    case True
    with here m tol Suc.prems(4) show ?thesis by simp
  next
    case False
    with j Suc.prems(4) have "Suc i - 1 \<le> j \<and> j < Suc i - 1 + todo" by simp
    with rest show ?thesis by blast
  qed
  with run lo sh before show ?case by simp
qed

lemma interior_energies:
  "interior (e0 # map fst ef @ [e1]) = map fst (ef :: (real \<times> arr) list)"
  by (simp add: interior_def butlast_append)

lemma off_call [simp]:
  "aligned ev (s\<lparr>dynamic_relaxation := False\<rparr>) = (aligned ev s)\<lparr>dynamic_relaxation := False\<rparr>"
  "endpoint_energies ev (s\<lparr>dynamic_relaxation := False\<rparr>) = endpoint_energies ev s"
  "stored (s\<lparr>dynamic_relaxation := False\<rparr>) en f = (stored s en f)\<lparr>dynamic_relaxation := False\<rparr>"
  "first_t1 ev (s\<lparr>dynamic_relaxation := False\<rparr>) = first_t1 ev s"
  by (simp_all add: aligned_def endpoint_energies_def stored_def first_t1_def
      cong: sum.case_cong)

lemma get_forces_structure:
  assumes "NEB_get_forces ev s = Inr (F, s')" "chain_ok s" "env_ok ev"
  obtains e0 e1 ef out where
    "distinct (List.map_filter calc (images s))"
    "endpoint_energies ev (aligned ev s) = Inr (e0, e1)"
    "eval_images ev (natoms s) (interior (images (aligned ev s))) = Inr ef" "ef \<noteq> []"
    "s' = stored (aligned ev s) (e0 # map fst ef @ [e1]) (map snd ef)"
    "force_loop ev s' (e0 # map fst ef @ [e1]) (imax_of (e0 # map fst ef @ [e1]))
        (nimages s - 2) 1 (first_t1 ev (aligned ev s)) (norm_arr (first_t1 ev (aligned ev s)))
        (map snd ef) = Inr out"
    "F = concat out"
    "length (map snd ef) = nimages s - 2"
    "\<forall>b\<in>set (map snd ef). length b = natoms s'"
    "length (first_t1 ev (aligned ev s)) = natoms s'"
    "\<forall>j \<le> 1 + (nimages s - 2). length (positions (images s' ! j)) = natoms s'"
    "chain_ok s'" "2 \<le> nimages s" "natoms s' = natoms s" "nimages s' = nimages s"
proof -
  from assms(1) obtain e0 e1 ef out where
    dist: "distinct (List.map_filter calc (images s))"
    and n2: "2 \<le> nimages s"
    and ee: "endpoint_energies ev (aligned ev s) = Inr (e0, e1)"
    and ef: "eval_images ev (natoms s) (interior (images (aligned ev s))) = Inr ef" "ef \<noteq> []"
    and s': "s' = stored (aligned ev s) (e0 # map fst ef @ [e1]) (map snd ef)"
    and lp: "force_loop ev s' (e0 # map fst ef @ [e1]) (imax_of (e0 # map fst ef @ [e1]))
        (nimages s - 2) 1 (first_t1 ev (aligned ev s)) (norm_arr (first_t1 ev (aligned ev s)))
        (map snd ef) = Inr out"
    and F: "F = concat out"
    by (rule NEB_get_forces_Inr)
  have ok: "chain_ok s'" using assms(2,3) by (simp add: s' chain_ok_aligned)
  have na: "natoms s' = natoms s" "nimages s' = nimages s" by (simp_all add: s')
  have len: "length (map snd ef) = nimages s - 2"
    using length_eval_images [OF ef(1)] assms(2) by (simp add: length_interior chain_ok_def)
  have bl: "\<forall>b\<in>set (map snd ef). length b = natoms s'"
    using eval_images_blocks [OF ef(1)] by (simp add: na)
  have pos: "length (positions (images s' ! j)) = natoms s'" if "j < nimages s" for j
    using chain_ok_positions [OF ok, of j] that by (simp add: na)
  have im: "images s' = images (aligned ev s)" by (simp add: s')
  have t1: "length (first_t1 ev (aligned ev s)) = natoms s'"
    using pos [of 0] pos [of 1] n2
    by (simp add: first_t1_def env_ok_mic [OF assms(3)] arr_sub_def im)
  have ps: "\<forall>j \<le> 1 + (nimages s - 2). length (positions (images s' ! j)) = natoms s'"
    using pos n2 by auto
  from dist ee ef s' lp F len bl t1 ps ok n2 na show ?thesis by (rule that)
qed

lemma get_forces_length:
  assumes "NEB_get_forces ev s = Inr (F, s')" "chain_ok s" "env_ok ev"
  shows "length F = (nimages s - 2) * natoms s"
proof -
  from assms obtain e0 e1 ef out where
    lp: "force_loop ev s' (e0 # map fst ef @ [e1]) (imax_of (e0 # map fst ef @ [e1]))
        (nimages s - 2) 1 (first_t1 ev (aligned ev s)) (norm_arr (first_t1 ev (aligned ev s)))
        (map snd ef) = Inr out"
    and F: "F = concat out"
    and len: "length (map snd ef) = nimages s - 2"
    and bl: "\<forall>b\<in>set (map snd ef). length b = natoms s'"
    and t1: "length (first_t1 ev (aligned ev s)) = natoms s'"
    and ps: "\<forall>j \<le> 1 + (nimages s - 2). length (positions (images s' ! j)) = natoms s'"
    and na: "natoms s' = natoms s"
    by (rule get_forces_structure)
  have "1 - 1 + (nimages s - 2) \<le> length (map snd ef)" using len by simp
  from force_loop_shape [OF assms(3) lp bl this _ t1 ps]
  have "length out = length (map snd ef)" "\<forall>b\<in>set out. length b = natoms s'" by simp_all
  with length_concat_blocks [of out "natoms s'"] len show ?thesis by (simp add: F na)
qed

subsection \<open>Dynamic relaxation (C3)\<close>

text \<open>
  C3, as stated, fails: with three images the single interior image is \<open>imax\<close>; its
  largest row norm 1 is below its tolerance 2, and the call still returns its force
  \<open>(0, 1, 0)\<close>, not zero.
\<close>

theorem dynamic_relaxation_forces_counterexample:
  "forces_after push_env relaxed3 = Inr [(0, 1, 0)] \<and>
   row_norm_max [(0, 1, 0)] = Inr 1 \<and>
   relax_tolerance relaxed3 1 1 = Inr 2"
  by (simp add: forces_after_def relaxed3_def call_defs example_defs step_defs arr_defs argsort_one
      numeral_2_eq_2 numeral_3_eq_3)

text \<open>
  C3, amended. Let \<open>get_forces\<close> succeed with dynamic relaxation. Then it also succeeds
  without it, with the same \<open>imax\<close>, and block by block the two results compare so: an
  interior image other than \<open>imax\<close> whose largest row norm (of the force computed
  without relaxation) is below its tolerance \<open>fmax * (1 + rel * scale_fmax)\<close> has zero
  forces; every other interior image, \<open>imax\<close> among them, has the force computed without
  relaxation.
\<close>

theorem dynamic_relaxation_forces:
  assumes "NEB_get_forces ev s = Inr (F, s')" and "dynamic_relaxation s"
    and "chain_ok s" and "env_ok ev"
  shows "\<exists>F0 s0 im.
     NEB_get_forces ev (s\<lparr>dynamic_relaxation := False\<rparr>) = Inr (F0, s0) \<and>
     imax s' = Some im \<and> imax s0 = Some im \<and>
     (\<forall>j < nimages s - 2. \<exists>m tol.
        row_norm_max (block (natoms s) j F0) = Inr m \<and>
        relax_tolerance s' im (j + 1) = Inr tol \<and>
        block (natoms s) j F =
          (if m < tol \<and> j + 1 \<noteq> im then replicate (natoms s) (0, 0, 0)
           else block (natoms s) j F0))"
proof -
  from assms(1,3,4) obtain e0 e1 ef out where
    dist: "distinct (List.map_filter calc (images s))"
    and ee: "endpoint_energies ev (aligned ev s) = Inr (e0, e1)"
    and ef: "eval_images ev (natoms s) (interior (images (aligned ev s))) = Inr ef" "ef \<noteq> []"
    and s': "s' = stored (aligned ev s) (e0 # map fst ef @ [e1]) (map snd ef)"
    and lp: "force_loop ev s' (e0 # map fst ef @ [e1]) (imax_of (e0 # map fst ef @ [e1]))
        (nimages s - 2) 1 (first_t1 ev (aligned ev s)) (norm_arr (first_t1 ev (aligned ev s)))
        (map snd ef) = Inr out"
    and F: "F = concat out"
    and len: "length (map snd ef) = nimages s - 2"
    and bl: "\<forall>b\<in>set (map snd ef). length b = natoms s'"
    and t1: "length (first_t1 ev (aligned ev s)) = natoms s'"
    and ps: "\<forall>j \<le> 1 + (nimages s - 2). length (positions (images s' ! j)) = natoms s'"
    and ok': "chain_ok s'" and n2: "2 \<le> nimages s"
    and na: "natoms s' = natoms s"
    by (rule get_forces_structure)
  let ?en = "e0 # map fst ef @ [e1]"
  let ?im = "imax_of ?en"
  let ?n = "natoms s"
  have dyn: "dynamic_relaxation s'" using assms(2) by (simp add: s')
  have im1: "1 \<le> ?im" by (simp add: imax_of_def)
  have le: "1 - 1 + (nimages s - 2) \<le> length (map snd ef)" using len by simp
  from force_loop_dyn [OF assms(4) dyn im1 lp bl le _ t1 ps, of "map snd ef"]
  obtain out0 where
    lp0: "force_loop ev (s'\<lparr>dynamic_relaxation := False\<rparr>) ?en ?im (nimages s - 2) 1
            (first_t1 ev (aligned ev s)) (norm_arr (first_t1 ev (aligned ev s))) (map snd ef) = Inr out0"
    and lo: "length out0 = length (map snd ef)" "length out = length (map snd ef)"
    and each: "\<forall>j. 1 - 1 \<le> j \<and> j < 1 - 1 + (nimages s - 2) \<longrightarrow>
          (\<exists>m tol. row_norm_max (out0 ! j) = Inr m \<and> relax_tolerance s' ?im (j + 1) = Inr tol \<and>
             out ! j = (if m < tol \<and> j + 1 \<noteq> ?im then replicate (natoms s') (0, 0, 0) else out0 ! j))"
    by auto
  have blo: "\<forall>b\<in>set out. length b = ?n"
    using force_loop_shape [OF assms(4) lp bl le _ t1 ps] by (simp add: na)
  have bl0: "\<forall>b\<in>set out0. length b = ?n"
  proof -
    let ?sN = "s'\<lparr>dynamic_relaxation := False\<rparr>"
    have a: "\<forall>b\<in>set (map snd ef). length b = natoms ?sN" using bl by simp
    have b: "length (first_t1 ev (aligned ev s)) = natoms ?sN" using t1 by simp
    have c: "\<forall>j \<le> 1 + (nimages s - 2). length (positions (images ?sN ! j)) = natoms ?sN"
      using ps by simp
    from force_loop_shape [OF assms(4) lp0 a le _ b c] show ?thesis by (simp add: na)
  qed
  have run0: "NEB_get_forces ev (s\<lparr>dynamic_relaxation := False\<rparr>)
                = Inr (concat out0, s'\<lparr>dynamic_relaxation := False\<rparr>)"
    unfolding NEB_get_forces_def NEB_evaluate_def Let_def
    using dist n2 ee ef lp0 by (simp add: interior_energies s')
  have blk: "block ?n j F = out ! j" "block ?n j (concat out0) = out0 ! j" if "j < nimages s - 2" for j
    using that concat_block [OF blo, of j] concat_block [OF bl0, of j] lo len
    by (simp_all add: block_def F)
  have "\<exists>m tol. row_norm_max (block ?n j (concat out0)) = Inr m \<and>
        relax_tolerance s' ?im (j + 1) = Inr tol \<and>
        block ?n j F = (if m < tol \<and> j + 1 \<noteq> ?im then replicate ?n (0, 0, 0)
                       else block ?n j (concat out0))"
    if j: "j < nimages s - 2" for j
  proof -
    from each j obtain m tol where
      "row_norm_max (out0 ! j) = Inr m" "relax_tolerance s' ?im (j + 1) = Inr tol"
      "out ! j = (if m < tol \<and> j + 1 \<noteq> ?im then replicate (natoms s') (0, 0, 0) else out0 ! j)"
      by auto
    then show ?thesis
      by (intro exI [of _ m] exI [of _ tol]) (simp add: blk [OF j] na)
  qed
  moreover have "imax s' = Some ?im" "imax (s'\<lparr>dynamic_relaxation := False\<rparr>) = Some ?im"
    by (simp_all add: s')
  ultimately show ?thesis using run0 by blast
qed

lemma get_forces_relaxed4:
  "\<exists>s'. NEB_get_forces push_env relaxed4 = Inr ([(0, 0, 0), (0, 1, 0)], s')"
  by (simp add: relaxed4_def call_defs example_defs step_defs arr_defs argsort_two
      numeral_2_eq_2 numeral_3_eq_3)

lemma env_ok_push: "env_ok push_env"
  by (simp add: env_ok_def push_env_def flat_env_def recentre_def)

theorem dynamic_relaxation_forces_witness:
  "\<exists>s'. NEB_get_forces push_env relaxed4 = Inr ([(0, 0, 0), (0, 1, 0)], s') \<and>
     dynamic_relaxation relaxed4 \<and> chain_ok relaxed4 \<and> env_ok push_env \<and>
     (\<exists>F0 s0 im.
        NEB_get_forces push_env (relaxed4\<lparr>dynamic_relaxation := False\<rparr>) = Inr (F0, s0) \<and>
        imax s' = Some im \<and> imax s0 = Some im \<and>
        (\<forall>j < nimages relaxed4 - 2. \<exists>m tol.
            row_norm_max (block (natoms relaxed4) j F0) = Inr m \<and>
            relax_tolerance s' im (j + 1) = Inr tol \<and>
            block (natoms relaxed4) j [(0, 0, 0), (0, 1, 0)] =
              (if m < tol \<and> j + 1 \<noteq> im then replicate (natoms relaxed4) (0, 0, 0)
               else block (natoms relaxed4) j F0)))"
proof -
  from get_forces_relaxed4 obtain s' where
    a: "NEB_get_forces push_env relaxed4 = Inr ([(0, 0, 0), (0, 1, 0)], s')" by blast
  have b: "dynamic_relaxation relaxed4" "chain_ok relaxed4"
    by (simp_all add: relaxed4_def chain_ok_def example_defs)
  from dynamic_relaxation_forces [OF a b env_ok_push] a b env_ok_push
  show ?thesis by blast
qed

subsection \<open>The shapes of the two \<open>get_forces\<close> (C10)\<close>

lemma length_ravel: "length (ravel a) = 3 * length a"
  by (induction a) (auto simp: ravel_def)

lemma length_mep_eval: "mep_eval ev n imgs = Inr frs \<Longrightarrow> length frs = length imgs"
  by (induction imgs arbitrary: frs) (auto split: sum.splits)

lemma length_broadcast_forces: "broadcast_forces m n fs = Inr fs' \<Longrightarrow> length fs' = m"
  by (auto simp: broadcast_forces_def split: sum.splits if_splits)

lemma length_mep_raw_forces:
  assumes "mep_raw_forces ev pe c = Inr forces" "nimages c = length (images c)"
  shows "length forces = nimages c - 2"
  using assms
  by (auto simp: mep_raw_forces_def length_interior
      dest: length_broadcast_forces length_mep_eval split: option.splits if_splits)

lemma mep_image_force_rows:
  "mep_image_force pe c sv x i f = Inr (a, r) \<Longrightarrow> length a = natoms c"
  by (auto simp: mep_image_force_def Let_def reshape3_def length_rows3
      split: sum.splits if_splits)

lemma mep_loop_rows:
  "mep_loop pe c sv x i fs = Inr ars \<Longrightarrow>
     length ars = length fs \<and> (\<forall>a\<in>set (map fst ars). length a = natoms c)"
proof (induction fs arbitrary: i ars)
  case Nil
  then show ?case by simp
next
  case (Cons f fs)
  from Cons.prems obtain a r rest where
    h: "mep_image_force pe c sv x i f = Inr (a, r)"
    and t: "mep_loop pe c sv x (Suc i) fs = Inr rest" and ars: "ars = (a, r) # rest"
    by (auto split: sum.splits)
  from Cons.IH [OF t] mep_image_force_rows [OF h] show ?case by (simp add: ars)
qed

lemma PreconMEP_get_forces_blocks:
  assumes "PreconMEP_get_forces ev pe c = Inr (G, c')" "nimages c = length (images c)"
  shows "length G = nimages c - 2 \<and> (\<forall>a\<in>set G. length a = natoms c) \<and>
         natoms c' = natoms c \<and> nimages c' = nimages c"
proof -
  from assms(1) obtain forces sv x ars where
    raw: "mep_raw_forces ev pe c = Inr forces"
    and lp: "mep_loop pe c sv x 1 forces = Inr ars"
    and G: "G = map fst ars" and c': "c' = c\<lparr>residuals := map snd ars\<rparr>"
    by (auto simp: PreconMEP_get_forces_def split: if_splits sum.splits prod.splits)
  from mep_loop_rows [OF lp] length_mep_raw_forces [OF raw assms(2)] show ?thesis
    by (simp add: G c')
qed

lemma shape_blocks_eq:
  "length G = m \<Longrightarrow> \<forall>a\<in>set G. length a = n \<Longrightarrow> shape_blocks n G = [m, n, 3]"
  by (cases G) (simp_all add: shape_blocks_def)

lemma set_dofs_counts:
  assumes "set_dofs c X = Inr c1"
  shows "natoms c1 = natoms c \<and> nimages c1 = nimages c \<and> length (images c1) = length (images c)"
proof -
  from assms obtain p mid where
    mid: "set_positions_loop (natoms c) p 0 (interior (images c)) = Inr mid"
    and c1: "c1 = c\<lparr>images := with_interior (images c) mid\<rparr>"
    by (auto simp: set_dofs_def set_positions_def split: sum.splits)
  from length_set_positions_loop [OF mid] show ?thesis
    by (simp add: c1 length_with_interior)
qed

lemma length_concat_ravel:
  "\<forall>a\<in>set G. length a = n \<Longrightarrow> length (concat (map ravel G)) = 3 * n * length G"
  by (induction G) (simp_all add: length_ravel algebra_simps)

text \<open>
  C10. A successful \<open>NEB.get_forces\<close> returns \<open>(nimages - 2) * natoms\<close> rows of three
  numbers, an array of two dimensions; a successful \<open>PreconMEP.get_forces\<close> returns
  \<open>nimages - 2\<close> blocks of \<open>natoms\<close> rows, an array of three dimensions;
  \<open>force_function\<close> returns a vector of \<open>3 * natoms * (nimages - 2)\<close> numbers; and the
  shapes of the two \<open>get_forces\<close> are never equal.
\<close>

theorem forces_shapes:
  "(NEB_get_forces ev s = Inr (F, s') \<and> chain_ok s \<and> env_ok ev \<longrightarrow>
      shape_rows F = [(nimages s - 2) * natoms s, 3]) \<and>
   (PreconMEP_get_forces ev pe c = Inr (G, c') \<and> nimages c = length (images c) \<longrightarrow>
      shape_blocks (natoms c) G = [nimages c - 2, natoms c, 3]) \<and>
   (force_function ev pe c X = Inr (v, c2) \<and> nimages c = length (images c) \<longrightarrow>
      length v = 3 * natoms c * (nimages c - 2)) \<and>
   shape_rows F \<noteq> shape_blocks (natoms c) G"
proof (intro conjI impI)
  assume "NEB_get_forces ev s = Inr (F, s') \<and> chain_ok s \<and> env_ok ev"
  then have "length F = (nimages s - 2) * natoms s"
    using get_forces_length [of ev s F s'] by blast
  then show "shape_rows F = [(nimages s - 2) * natoms s, 3]"
    by (simp add: shape_rows_def)
next
  assume a: "PreconMEP_get_forces ev pe c = Inr (G, c') \<and> nimages c = length (images c)"
  with PreconMEP_get_forces_blocks [of ev pe c G c']
  show "shape_blocks (natoms c) G = [nimages c - 2, natoms c, 3]"
    by (intro shape_blocks_eq) simp_all
next
  assume a: "force_function ev pe c X = Inr (v, c2) \<and> nimages c = length (images c)"
  then obtain c1 G where
    sd: "set_dofs c X = Inr c1" and gf: "PreconMEP_get_forces ev pe c1 = Inr (G, c2)"
    and v: "v = concat (map ravel G)"
    by (auto simp: force_function_def split: sum.splits prod.splits)
  from set_dofs_counts [OF sd] a have k: "natoms c1 = natoms c" "nimages c1 = nimages c"
    "nimages c1 = length (images c1)" by simp_all
  from PreconMEP_get_forces_blocks [OF gf k(3)] k
  have "length G = nimages c - 2" "\<forall>a\<in>set G. length a = natoms c" by simp_all
  with length_concat_ravel [of G "natoms c"] show "length v = 3 * natoms c * (nimages c - 2)"
    by (simp add: v)
next
  show "shape_rows F \<noteq> shape_blocks (natoms c) G"
    by (simp add: shape_rows_def shape_blocks_def)
qed

lemma force_function_example:
  "force_function flat_env unit_penv example_mep [1, 0, 0] =
     Inr ([0, 0, 0], example_mep\<lparr>residuals := [0]\<rparr>)"
  by (simp add: mep_defs mep_example_defs call_defs example_defs arr_defs
      numeral_2_eq_2 numeral_3_eq_3)

lemma env_ok_flat: "env_ok flat_env"
  by (simp add: env_ok_def flat_env_def recentre_def)

theorem forces_shapes_witness:
  "\<exists>F s'. NEB_get_forces flat_env (example_neb line4 ''aseneb'' False False False False) = Inr (F, s') \<and>
     chain_ok (example_neb line4 ''aseneb'' False False False False) \<and> env_ok flat_env \<and>
     shape_rows F = [2, 3] \<and>
     PreconMEP_get_forces flat_env unit_penv example_mep = Inr ([[(0, 0, 0)]], example_mep\<lparr>residuals := [0]\<rparr>) \<and>
     nimages example_mep = length (images example_mep) \<and>
     shape_blocks (natoms example_mep) [[(0, 0, 0)]] = [1, 1, 3] \<and>
     force_function flat_env unit_penv example_mep [1, 0, 0] = Inr ([0, 0, 0], example_mep\<lparr>residuals := [0]\<rparr>) \<and>
     length [0, 0, 0 :: real] = 3 * natoms example_mep * (nimages example_mep - 2) \<and>
     shape_rows F \<noteq> shape_blocks (natoms example_mep) [[(0, 0, 0)]]"
proof -
  from get_forces_line4 obtain F s' where
    a: "NEB_get_forces flat_env (example_neb line4 ''aseneb'' False False False False) = Inr (F, s')"
    by blast
  have b: "chain_ok (example_neb line4 ''aseneb'' False False False False)"
    "nimages example_mep = length (images example_mep)"
    "nimages (example_neb line4 ''aseneb'' False False False False) = 4"
    "natoms (example_neb line4 ''aseneb'' False False False False) = 1"
    "natoms example_mep = 1" "nimages example_mep = 3"
    by (simp_all add: chain_ok_def example_defs example_mep_def)
  from forces_shapes [where ev = flat_env and s = "example_neb line4 ''aseneb'' False False False False"
      and F = F and s' = s' and pe = unit_penv and c = example_mep and G = "[[(0, 0, 0)]]"
      and c' = "example_mep\<lparr>residuals := [0]\<rparr>" and X = "[1, 0, 0]" and v = "[0, 0, 0]"
      and ?c2.0 = "example_mep\<lparr>residuals := [0]\<rparr>"]
    a b env_ok_flat get_forces_example_mep force_function_example
  show ?thesis by (intro exI [of _ F] exI [of _ s']) simp
qed

end
